theory Spec2Isabelle
  imports Main
begin

section \<open>The weather terminal program\<close>

text \<open>
  The program is a Bubble Tea application: a \<open>Model\<close> with the methods \<open>Init\<close>,
  \<open>Update\<close> and \<open>View\<close>, a command \<open>LoadWeather\<close> that fetches and decodes a forecast,
  and \<open>InitTable\<close>, which projects the stored forecast into table rows. Go strings are
  byte sequences, so a \<open>string\<close> here is the list of the bytes of the Go string.
\<close>

subsection \<open>float64 and the verb \<open>%.2f\<close>\<close>

text \<open>
  A \<open>float64\<close> is a signed zero or a signed \<open>m * 2 ^ e\<close>, an infinity or a NaN.
  \<open>Finite s m e\<close> stands for \<open>(-1) ^ s * m * 2 ^ e\<close>; the bounds of the format on
  \<open>m\<close> and \<open>e\<close> play no role in what follows and are left out.
\<close>

datatype float64 = Finite bool nat int | Infinity bool | NaN

definition float64_zero :: float64 where
  "float64_zero = Finite False 0 0"

fun is_finite :: "float64 \<Rightarrow> bool" where
  "is_finite (Finite s m e) = True"
| "is_finite (Infinity s) = False"
| "is_finite NaN = False"

definition digit :: "nat \<Rightarrow> char" where
  "digit n = ''0123456789'' ! n"

function decimal :: "nat \<Rightarrow> string" where
  "decimal n = (if n < 10 then [digit n] else decimal (n div 10) @ [digit (n mod 10)])"
  by pat_completeness auto
termination
  by (relation "measure (\<lambda>n. n)") auto

declare decimal.simps [simp del]

text \<open>
  \<open>hundredths m e\<close> is \<open>m * 2 ^ e * 100\<close> rounded to the nearest natural number, a tie
  going to the even one: \<open>strconv\<close> converts the binary value to its exact decimal
  expansion and rounds that expansion half-to-even at the requested digit.
\<close>

definition hundredths :: "nat \<Rightarrow> int \<Rightarrow> nat" where
  "hundredths m e =
     (if 0 \<le> e then m * 2 ^ nat e * 100
      else let d = 2 ^ nat (- e); n = m * 100; q = n div d; r = n mod d
           in if d < 2 * r \<or> (2 * r = d \<and> odd q) then q + 1 else q)"

text \<open>\<open>fmt.Sprintf("%.2f", v)\<close>.\<close>

fun Sprintf_2f :: "float64 \<Rightarrow> string" where
  "Sprintf_2f (Finite s m e) =
     (let q = hundredths m e
      in (if s then ''-'' else '''') @ decimal (q div 100) @ ''.'' @
         [digit (q mod 100 div 10), digit (q mod 10)])"
| "Sprintf_2f (Infinity s) = (if s then ''-Inf'' else ''+Inf'')"
| "Sprintf_2f NaN = ''NaN''"

subsection \<open>The forecast\<close>

record Values_struct =
  TemperatureAvg :: float64
  HumidityAvg :: float64

record daily =
  Time :: string
  Values :: Values_struct

record timelines =
  Daily :: "daily list"

record Weather =
  Timelines :: timelines

definition values_zero :: Values_struct where
  "values_zero = \<lparr>TemperatureAvg = float64_zero, HumidityAvg = float64_zero\<rparr>"

definition daily_zero :: daily where
  "daily_zero = \<lparr>Time = '''', Values = values_zero\<rparr>"

definition Weather_zero :: Weather where
  "Weather_zero = \<lparr>Timelines = \<lparr>Daily = []\<rparr>\<rparr>"

subsection \<open>The table and \<open>InitTable\<close>\<close>

text \<open>
  Of \<open>table.Model\<close> the program sets the columns (title and width), the rows, the
  height (\<open>None\<close> when none is asked for) and the header style. A Go panic is a value
  of type \<open>panic\<close>: slicing a string of \<open>n\<close> bytes as \<open>s[:10]\<close> with \<open>n < 10\<close>
  panics with "slice bounds out of range [:10] with length n". The repository has
  \<open>InitTable\<close> twice, and the two copies differ in the bytes of the format of the
  temperature only: in the program with the city prompt the number is followed by
  C2 B0 43 (the degree sign in UTF-8 and \<open>C\<close>), in \<open>src/main.go\<close> by C3 82 C2 B0 43
  (the same three bytes after the two bytes of an A with circumflex).
\<close>

datatype panic = SliceBoundsOutOfRange nat nat

datatype border = NoBorder | NormalBorder

record header_Style =
  BorderStyle :: border
  BorderBottom :: bool
  Bold :: bool

record table_Model =
  cols :: "(string \<times> nat) list"
  rows :: "string list list"
  height :: "nat option"
  Header :: header_Style

definition DefaultStyles :: header_Style where
  "DefaultStyles = \<lparr>BorderStyle = NoBorder, BorderBottom = False, Bold = True\<rparr>"

definition table_New :: "(string \<times> nat) list \<Rightarrow> string list list \<Rightarrow> nat option \<Rightarrow> table_Model" where
  "table_New cs rs h = \<lparr>cols = cs, rows = rs, height = h, Header = DefaultStyles\<rparr>"

definition degC :: string where
  "degC = [CHR 0xC2, CHR 0xB0] @ ''C''"


text \<open>\<open>day.Time[:10]\<close>.\<close>

definition slice_to :: "nat \<Rightarrow> string \<Rightarrow> panic + string" where
  "slice_to k s = (if length s < k then Inl (SliceBoundsOutOfRange k (length s)) else Inr (take k s))"

text \<open>
  The loop of \<open>InitTable\<close> over \<open>m.w.Timelines.Daily\<close>, appending one row per day;
  \<open>deg\<close> is what the format of the temperature has after \<open>%.2f\<close>.
\<close>

fun table_rows :: "string \<Rightarrow> daily list \<Rightarrow> string list list \<Rightarrow> panic + string list list" where
  "table_rows deg [] rs = Inr rs"
| "table_rows deg (day # days) rs =
     (case slice_to 10 (Time day) of
        Inl p \<Rightarrow> Inl p
      | Inr t \<Rightarrow>
          table_rows deg days
            (rs @ [[t,
                    Sprintf_2f (TemperatureAvg (Values day)) @ deg,
                    Sprintf_2f (HumidityAvg (Values day)) @ ''%'']]))"

subsection \<open>Decoding the response body\<close>

text \<open>
  \<open>Decode\<close> hands the bytes to \<open>json.Unmarshal\<close>. The body is carried as what the
  scanner of \<open>encoding/json\<close> makes of its bytes: \<open>NotJSON\<close> when they are not exactly
  one valid JSON text, and the syntax tree of the text otherwise. A string is carried
  unquoted (valid UTF-8), and a number as the result of \<open>strconv.ParseFloat\<close> on its
  literal: on the right the sign, mantissa and exponent of the nearest \<open>float64\<close>, on
  the left the text of the literal when it is out of range. The members of an object
  keep their order and duplicates.
\<close>

datatype json =
    JNull
  | JBool bool
  | JNumber "string + bool \<times> nat \<times> int"
  | JString string
  | JArray "json list"
  | JObject "(string \<times> json) list"

datatype body = NotJSON | JSON json

datatype error =
    Errorf string
  | NetError string
  | SyntaxError
  | UnmarshalTypeError string

text \<open>The \<open>Value\<close> field of an \<open>UnmarshalTypeError\<close>.\<close>

fun json_kind :: "json \<Rightarrow> string" where
  "json_kind JNull = ''null''"
| "json_kind (JBool b) = ''bool''"
| "json_kind (JNumber n) = ''number''"
| "json_kind (JString s) = ''string''"
| "json_kind (JArray js) = ''array''"
| "json_kind (JObject ms) = ''object''"

text \<open>The decoder keeps the first error it meets and goes on.\<close>

fun saveError :: "error option \<Rightarrow> error \<Rightarrow> error option" where
  "saveError None e = Some e"
| "saveError (Some e0) e = Some e0"

text \<open>
  An object key selects the field whose name it equals, or else the field whose name
  it equals after folding: ASCII letters to upper case, the Kelvin sign (E2 84 AA) to
  \<open>K\<close> and the long s (C5 BF) to \<open>S\<close>. Every other rune folds to a rune outside
  ASCII and is copied here as it is, which decides equality with the folded ASCII
  field names of this program the same way.
\<close>

definition upper :: "char \<Rightarrow> char" where
  "upper c =
     (case map_of (zip ''abcdefghijklmnopqrstuvwxyz'' ''ABCDEFGHIJKLMNOPQRSTUVWXYZ'') c of
        Some u \<Rightarrow> u
      | None \<Rightarrow> c)"

fun foldName :: "string \<Rightarrow> string" where
  "foldName (a # b # c # cs) =
     (if a = CHR 0xE2 \<and> b = CHR 0x84 \<and> c = CHR 0xAA then CHR ''K'' # foldName cs
      else if a = CHR 0xC5 \<and> b = CHR 0xBF then CHR ''S'' # foldName (c # cs)
      else upper a # foldName (b # c # cs))"
| "foldName [a, b] =
     (if a = CHR 0xC5 \<and> b = CHR 0xBF then ''S'' else [upper a, upper b])"
| "foldName [a] = [upper a]"
| "foldName [] = []"

definition field_matches :: "string \<Rightarrow> string \<Rightarrow> bool" where
  "field_matches name key \<longleftrightarrow> key = name \<or> foldName key = foldName name"

text \<open>
  Each function below decodes one JSON value into a Go value of one type of the
  \<open>Weather\<close> struct, given the current value and the error saved so far. A \<open>null\<close>
  leaves a string, a number or a struct as it is and makes a slice nil; a value of the
  wrong kind leaves the target as it is and saves an \<open>UnmarshalTypeError\<close>.
\<close>

fun decode_float64 :: "json \<Rightarrow> float64 \<times> error option \<Rightarrow> float64 \<times> error option" where
  "decode_float64 (JNumber (Inr (s, m, e))) (v, err) = (Finite s m e, err)"
| "decode_float64 (JNumber (Inl literal)) (v, err) =
     (v, saveError err (UnmarshalTypeError (''number '' @ literal)))"
| "decode_float64 JNull (v, err) = (v, err)"
| "decode_float64 j (v, err) = (v, saveError err (UnmarshalTypeError (json_kind j)))"

fun decode_string :: "json \<Rightarrow> string \<times> error option \<Rightarrow> string \<times> error option" where
  "decode_string (JString s) (v, err) = (s, err)"
| "decode_string JNull (v, err) = (v, err)"
| "decode_string j (v, err) = (v, saveError err (UnmarshalTypeError (json_kind j)))"

text \<open>
  An object is decoded member by member, in the order of the text: a member whose key
  selects a field is decoded into that field, any other member is skipped.
\<close>

fun Values_member ::
  "string \<times> json \<Rightarrow> Values_struct \<times> error option \<Rightarrow> Values_struct \<times> error option" where
  "Values_member (key, j) (v, err) =
     (if field_matches ''temperatureAvg'' key then
        (let (f, err') = decode_float64 j (TemperatureAvg v, err)
         in (v\<lparr>TemperatureAvg := f\<rparr>, err'))
      else if field_matches ''humidityAvg'' key then
        (let (f, err') = decode_float64 j (HumidityAvg v, err)
         in (v\<lparr>HumidityAvg := f\<rparr>, err'))
      else (v, err))"

fun decode_Values :: "json \<Rightarrow> Values_struct \<times> error option \<Rightarrow> Values_struct \<times> error option" where
  "decode_Values (JObject ms) (v, err) = fold Values_member ms (v, err)"
| "decode_Values JNull (v, err) = (v, err)"
| "decode_Values j (v, err) = (v, saveError err (UnmarshalTypeError (json_kind j)))"

fun daily_member :: "string \<times> json \<Rightarrow> daily \<times> error option \<Rightarrow> daily \<times> error option" where
  "daily_member (key, j) (d, err) =
     (if field_matches ''time'' key then
        (let (s, err') = decode_string j (Time d, err)
         in (d\<lparr>Time := s\<rparr>, err'))
      else if field_matches ''values'' key then
        (let (v, err') = decode_Values j (Values d, err)
         in (d\<lparr>Values := v\<rparr>, err'))
      else (d, err))"

fun decode_daily :: "json \<Rightarrow> daily \<times> error option \<Rightarrow> daily \<times> error option" where
  "decode_daily (JObject ms) (d, err) = fold daily_member ms (d, err)"
| "decode_daily JNull (d, err) = (d, err)"
| "decode_daily j (d, err) = (d, saveError err (UnmarshalTypeError (json_kind j)))"

text \<open>
  A slice is its backing array and its length. An array is decoded element by element
  into the slots of the backing array from index 0, a slot that does not exist yet
  being a zero value; an element is decoded into what its slot holds, so a second
  array for the same field merges into the elements of the first. After the last
  element the length is the number of elements; an empty array gives a new empty
  slice.
\<close>

type_synonym daily_slice = "daily list \<times> nat"

fun decode_elems :: "json list \<Rightarrow> nat \<Rightarrow> daily list \<times> error option \<Rightarrow> daily list \<times> error option" where
  "decode_elems [] i (arr, err) = (arr, err)"
| "decode_elems (j # js) i (arr, err) =
     (let arr1 = (if i < length arr then arr else arr @ [daily_zero]);
          (d, err') = decode_daily j (arr1 ! i, err)
      in decode_elems js (i + 1) (arr1[i := d], err'))"

fun decode_Daily :: "json \<Rightarrow> daily_slice \<times> error option \<Rightarrow> daily_slice \<times> error option" where
  "decode_Daily (JArray js) ((arr, n), err) =
     (if js = [] then (([], 0), err)
      else let (arr', err') = decode_elems js 0 (arr, err) in ((arr', length js), err'))"
| "decode_Daily JNull ((arr, n), err) = (([], 0), err)"
| "decode_Daily j ((arr, n), err) = ((arr, n), saveError err (UnmarshalTypeError (json_kind j)))"

fun timelines_member ::
  "string \<times> json \<Rightarrow> daily_slice \<times> error option \<Rightarrow> daily_slice \<times> error option" where
  "timelines_member (key, j) (sl, err) =
     (if field_matches ''daily'' key then decode_Daily j (sl, err) else (sl, err))"

fun decode_timelines :: "json \<Rightarrow> daily_slice \<times> error option \<Rightarrow> daily_slice \<times> error option" where
  "decode_timelines (JObject ms) (sl, err) = fold timelines_member ms (sl, err)"
| "decode_timelines JNull (sl, err) = (sl, err)"
| "decode_timelines j (sl, err) = (sl, saveError err (UnmarshalTypeError (json_kind j)))"

fun Weather_member ::
  "string \<times> json \<Rightarrow> daily_slice \<times> error option \<Rightarrow> daily_slice \<times> error option" where
  "Weather_member (key, j) (sl, err) =
     (if field_matches ''timelines'' key then decode_timelines j (sl, err) else (sl, err))"

fun decode_Weather :: "json \<Rightarrow> daily_slice \<times> error option \<Rightarrow> daily_slice \<times> error option" where
  "decode_Weather (JObject ms) (sl, err) = fold Weather_member ms (sl, err)"
| "decode_Weather JNull (sl, err) = (sl, err)"
| "decode_Weather j (sl, err) = (sl, saveError err (UnmarshalTypeError (json_kind j)))"

text \<open>
  \<open>json.Unmarshal(data, &w)\<close> on the receiver \<open>w0\<close>: the decoded forecast and the
  error, if any. The slice of the receiver is taken to have no capacity beyond its
  length, which is so for \<open>Weather{}\<close>, the only receiver the program decodes into.
\<close>

definition Unmarshal :: "body \<Rightarrow> Weather \<Rightarrow> Weather \<times> error option" where
  "Unmarshal data w0 =
     (case data of
        NotJSON \<Rightarrow> (w0, Some SyntaxError)
      | JSON j \<Rightarrow>
          (let ((arr, n), err) =
                 decode_Weather j ((Daily (Timelines w0), length (Daily (Timelines w0))), None)
           in (\<lparr>Timelines = \<lparr>Daily = take n arr\<rparr>\<rparr>, err)))"

definition Decode :: "Weather \<Rightarrow> body \<Rightarrow> Weather \<times> error option" where
  "Decode w0 data =
     (let (w1, err) = Unmarshal data w0
      in if err \<noteq> None then (w1, err) else (w1, None))"

subsection \<open>Messages, commands and widgets\<close>

text \<open>
  A \<open>tea.Msg\<close> is a \<open>WeatherMsg\<close> (fields \<open>w\<close> and \<open>err\<close>), a key, the quit message
  that \<open>tea.Quit\<close> returns, or a message of a widget that the program does not look
  at. A \<open>tea.Cmd\<close> is a closure the runtime calls on a goroutine of its own:
  \<open>LoadWeather city\<close> is the closure \<open>m.LoadWeather(city)\<close> returns, \<open>AskCity\<close> the
  closure \<open>Init\<close> returns, \<open>Quit\<close> is \<open>tea.Quit\<close>, and \<open>WidgetCmd\<close> is a command of
  the text input.
\<close>

datatype key = KeyCtrlC | KeyCtrlR | KeyCtrlI | KeyEnter | KeyRunes string | KeyOther nat

datatype msg =
    WeatherMsg Weather "error option"
  | KeyMsg key
  | QuitMsg
  | OtherMsg nat

datatype cmd = LoadWeather string | AskCity | Quit | WidgetCmd nat

text \<open>
  The text input is \<open>textinput.Model\<close> of the library. Its buffer \<open>Value\<close> is a list
  of runes, each taken to be one cell wide, as the printable ASCII characters are.
  \<open>pos\<close> is the place of the cursor in the buffer; \<open>offset\<close> and \<open>offsetRight\<close> are
  the two ends of the part of the buffer that is drawn when the buffer is wider than
  \<open>Width\<close>. \<open>textinput.New()\<close> sets the prompt to \<open>"> "\<close> and leaves the echo mode at
  normal, in which the runes are drawn as they are.
\<close>

record textinput_Model =
  Prompt :: string
  Placeholder :: string
  CharLimit :: nat
  Width :: nat
  focus :: bool
  Value :: string
  pos :: nat
  offset :: nat
  offsetRight :: nat

definition textinput_New :: textinput_Model where
  "textinput_New =
     \<lparr>Prompt = ''> '', Placeholder = '''', CharLimit = 0, Width = 0, focus = False,
      Value = '''', pos = 0, offset = 0, offsetRight = 0\<rparr>"

definition Focus :: "textinput_Model \<Rightarrow> textinput_Model" where
  "Focus i = i\<lparr>focus := True\<rparr>"

definition RuneWidth :: "char \<Rightarrow> nat" where
  "RuneWidth r = 1"

text \<open>
  The two loops of \<open>handleOverflow\<close>. The first walks to the right from the left end
  of the window and counts the runes that fit; the second walks to the left from
  the rune before the cursor.
\<close>

function scan_right :: "nat \<Rightarrow> string \<Rightarrow> nat \<Rightarrow> nat \<Rightarrow> nat" where
  "scan_right W runes i w =
     (if i < length runes \<and> w \<le> W then
        (let w = w + RuneWidth (runes ! i)
         in if w \<le> W + 1 then scan_right W runes (i + 1) w else scan_right W runes i w)
      else i)"
  by pat_completeness auto
termination
  by (relation "measure (\<lambda>(W, runes, i, w). (length runes - i) + (W + 1 - w))")
     (auto simp add: RuneWidth_def)

function scan_left :: "nat \<Rightarrow> string \<Rightarrow> nat \<Rightarrow> nat \<Rightarrow> nat" where
  "scan_left W runes i w =
     (if 0 < i \<and> w < W then
        (let w = w + RuneWidth (runes ! i)
         in if w \<le> W then scan_left W runes (i - 1) w else scan_left W runes i w)
      else i)"
  by pat_completeness auto
termination
  by (relation "measure (\<lambda>(W, runes, i, w). i + (W - w))")
     (auto simp add: RuneWidth_def)

declare scan_right.simps [simp del]
declare scan_left.simps [simp del]

text \<open>
  \<open>handleOverflow\<close> moves the window after a change: a buffer no wider than \<open>Width\<close>
  (or any buffer when no width is set) is drawn whole; otherwise the window is moved
  so that the cursor is inside it.
\<close>

definition handleOverflow :: "textinput_Model \<Rightarrow> textinput_Model" where
  "handleOverflow i =
     (if Width i = 0 \<or> length (Value i) \<le> Width i then
        i\<lparr>offset := 0, offsetRight := length (Value i)\<rparr>
      else
        (let i = i\<lparr>offsetRight := min (offsetRight i) (length (Value i))\<rparr>
         in if pos i < offset i then
              (let i = i\<lparr>offset := pos i\<rparr>;
                   n = scan_right (Width i) (drop (offset i) (Value i)) 0 0
               in i\<lparr>offsetRight := offset i + n\<rparr>)
            else if offsetRight i \<le> pos i then
              (let i = i\<lparr>offsetRight := pos i\<rparr>;
                   runes = take (offsetRight i) (Value i);
                   k = scan_left (Width i) runes (length runes - 1) 0
               in i\<lparr>offset := offsetRight i - (length runes - 1 - k)\<rparr>)
            else i))"

text \<open>
  \<open>insertRunesFromUserInput\<close>: the runes typed (or pasted) are cut to the room that
  \<open>CharLimit\<close> leaves and put in at the cursor, which moves behind them.
\<close>

definition insertRunesFromUserInput :: "string \<Rightarrow> textinput_Model \<Rightarrow> textinput_Model" where
  "insertRunesFromUserInput v i =
     (if 0 < CharLimit i \<and> CharLimit i \<le> length (Value i) then i
      else
        (let paste = (if 0 < CharLimit i then take (CharLimit i - length (Value i)) v else v);
             i = i\<lparr>Value := take (pos i) (Value i) @ paste @ drop (pos i) (Value i),
                   pos := pos i + length paste\<rparr>
         in handleOverflow i))"

datatype spinner_Spinner = NoSpinner | Line | Dot

record spinner_Model =
  Spinner :: spinner_Spinner
  Foreground :: "string option"

definition spinner_New :: spinner_Model where
  "spinner_New = \<lparr>Spinner = Line, Foreground = None\<rparr>"

text \<open>
  What the spinner and the table draw, what the styles of the terminal add to a
  text, and how the text input reacts to a message, is code of the libraries. These
  functions are parameters of the model: \<open>Render\<close> is \<open>baseStyle.Render\<close>,
  \<open>PromptStyle\<close> and \<open>TextStyle\<close> are the renderers of the two styles of the text
  input, \<open>Cursor_View\<close> is what the cursor draws for the rune under it, and
  \<open>placeholderView\<close> is what the text input draws for its placeholder.
\<close>

record widgets =
  spinner_View :: "spinner_Model \<Rightarrow> string"
  PromptStyle :: "string \<Rightarrow> string"
  TextStyle :: "string \<Rightarrow> string"
  Cursor_View :: "string \<Rightarrow> string"
  placeholderView :: "textinput_Model \<Rightarrow> string"
  textinput_Update :: "textinput_Model \<Rightarrow> msg \<Rightarrow> textinput_Model \<times> cmd option"
  table_View :: "table_Model \<Rightarrow> string"
  Render :: "string \<Rightarrow> string"

text \<open>
  \<open>View\<close> of the text input. With an empty buffer and a placeholder it draws the
  placeholder. Otherwise it draws the prompt, then the runes of the buffer from
  \<open>offset\<close> to \<open>offsetRight\<close> with the cursor on the rune at \<open>pos\<close> (on a space when
  the cursor is behind the last rune drawn), then spaces up to \<open>Width\<close>. The library
  keeps \<open>offset \<le> offsetRight\<close>, \<open>offsetRight\<close> within the buffer and \<open>pos\<close> within the
  buffer.
\<close>

definition textinput_View :: "widgets \<Rightarrow> textinput_Model \<Rightarrow> string" where
  "textinput_View L i =
     (if length (Value i) = 0 \<and> Placeholder i \<noteq> '''' then placeholderView L i
      else
        (let val = take (offsetRight i - offset i) (drop (offset i) (Value i));
             p = pos i - offset i;
             v = TextStyle L (take p val);
             v = (if p < length val then
                    v @ Cursor_View L [val ! p] @ TextStyle L (drop (p + 1) val)
                  else v @ Cursor_View L '' '');
             valWidth = length val;
             v = (if 0 < Width i \<and> valWidth \<le> Width i then
                    (let padding = Width i - valWidth;
                         padding = (if valWidth + padding \<le> Width i \<and> p < length val
                                    then padding + 1 else padding)
                     in v @ TextStyle L (replicate padding CHR '' ''))
                  else v)
         in PromptStyle L (Prompt i) @ v))"

subsection \<open>The model and its methods\<close>

text \<open>The field \<open>mu\<close> is the mutex: \<open>True\<close> when it is locked.\<close>

record Model =
  input :: textinput_Model
  w :: Weather
  table :: table_Model
  currentCity :: string
  updating :: bool
  gettingInput :: bool
  mu :: bool
  spinner :: spinner_Model

text \<open>\<open>Model{}\<close>: every field has its zero value.\<close>

definition Model_zero :: Model where
  "Model_zero =
     \<lparr>input = \<lparr>Prompt = '''', Placeholder = '''', CharLimit = 0, Width = 0, focus = False,
               Value = '''', pos = 0, offset = 0, offsetRight = 0\<rparr>,
      w = Weather_zero,
      table = \<lparr>cols = [], rows = [], height = None,
               Header = \<lparr>BorderStyle = NoBorder, BorderBottom = False, Bold = False\<rparr>\<rparr>,
      currentCity = '''',
      updating = False,
      gettingInput = False,
      mu = False,
      spinner = \<lparr>Spinner = NoSpinner, Foreground = None\<rparr>\<rparr>"

definition Init :: "Model \<Rightarrow> Model \<times> cmd option" where
  "Init m =
     (let s = spinner_New;
          input0 = textinput_New;
          input0 = input0\<lparr>Placeholder := ''Enter city name''\<rparr>;
          input0 = input0\<lparr>CharLimit := 100\<rparr>;
          input0 = input0\<lparr>Width := 50\<rparr>;
          m = m\<lparr>input := input0\<rparr>;
          s = s\<lparr>Spinner := Dot\<rparr>;
          s = s\<lparr>Foreground := Some ''205''\<rparr>;
          m = m\<lparr>spinner := s\<rparr>
      in (m, Some AskCity))"

text \<open>
  \<open>Init\<close> of \<open>src/main.go\<close>, which has no text input: it returns the closure of
  \<open>LoadWeather("uyo")\<close>.
\<close>

definition Init_main_go :: "Model \<Rightarrow> Model \<times> cmd option" where
  "Init_main_go m =
     (let s = spinner_New;
          s = s\<lparr>Spinner := Dot\<rparr>;
          s = s\<lparr>Foreground := Some ''205''\<rparr>;
          m = m\<lparr>spinner := s\<rparr>
      in (m, Some (LoadWeather ''uyo'')))"

definition InitTable :: "Model \<Rightarrow> panic + Model" where
  "InitTable m =
     (let m = m\<lparr>table := table_New [] [] None\<rparr>;
          columns = [(''Time'', 10), (''Temperature'', 15), (''Humidity'', 10)]
      in case table_rows degC (Daily (Timelines (w m))) [] of
           Inl p \<Rightarrow> Inl p
         | Inr rs \<Rightarrow>
             (let t = table_New columns rs (Some 9);
                  s = DefaultStyles;
                  s = s\<lparr>BorderStyle := NormalBorder, BorderBottom := True, Bold := False\<rparr>;
                  t = t\<lparr>Header := s\<rparr>
              in Inr (m\<lparr>table := t\<rparr>)))"


text \<open>The end of \<open>Update\<close>, after the switch.\<close>

definition Update_input :: "widgets \<Rightarrow> msg \<Rightarrow> Model \<Rightarrow> panic + Model \<times> cmd option" where
  "Update_input L ms m =
     (if gettingInput m then
        (let (i, c) = textinput_Update L (input m) ms in Inr (m\<lparr>input := i\<rparr>, c))
      else Inr (m, None))"

fun Update :: "widgets \<Rightarrow> msg \<Rightarrow> Model \<Rightarrow> panic + Model \<times> cmd option" where
  "Update L (WeatherMsg mw merr) m =
     (if merr \<noteq> None then Inr (m, None)
      else case InitTable (m\<lparr>w := mw\<rparr>) of
             Inl p \<Rightarrow> Inl p
           | Inr m' \<Rightarrow> Inr (m', None))"
| "Update L (KeyMsg KeyCtrlC) m = Inr (m, Some Quit)"
| "Update L (KeyMsg KeyCtrlR) m = Inr (m, Some (LoadWeather (currentCity m)))"
| "Update L (KeyMsg KeyCtrlI) m = Inr (m\<lparr>gettingInput := True, input := Focus (input m)\<rparr>, None)"
| "Update L (KeyMsg KeyEnter) m =
     (if gettingInput m then
        Inr (m\<lparr>gettingInput := False\<rparr>, Some (LoadWeather (Value (input m))))
      else Update_input L (KeyMsg KeyEnter) m)"
| "Update L ms m = Update_input L ms m"

definition help_line :: string where
  "help_line = ''\<newline>\<newline>\<newline>Press ctrl+c to quit, ctrl+r to refresh, ctrl+i to change city''"

definition View :: "widgets \<Rightarrow> Model \<Rightarrow> string" where
  "View L m =
     (let view = '''';
          view = (if updating m then
                    ''\<newline>\<newline>   '' @ spinner_View L (spinner m) @ '' Loading weather data...''
                  else view);
          view = (if gettingInput m then
                    (''Enter a city to see weather infor: \<newline>\<newline>'' @
                       textinput_View L (input m) @ ''\<newline>\<newline>'') @ ''\<newline>''
                  else view);
          view = (if \<not> gettingInput m \<and> \<not> updating m then
                    ''\<newline>Showing weather data for '' @ currentCity m @ '' \<newline>'' @
                      Render L (table_View L (table m))
                  else view)
      in view @ help_line)"

subsection \<open>\<open>FetchWeather\<close>\<close>

text \<open>
  \<open>FetchWeather(city)\<close> sends one GET request and reads the body of the response.
  The network is an argument: it gives, for the city asked for, a failure of
  \<open>http.Get\<close>, a failure of \<open>io.ReadAll\<close>, or the bytes of the body. The status
  code of the response is not looked at.
\<close>

datatype answer = GetFailed string | ReadAllFailed string | Answered body

definition FetchWeather :: "(string \<Rightarrow> answer) \<Rightarrow> string \<Rightarrow> error + body" where
  "FetchWeather net city =
     (case net city of
        GetFailed e \<Rightarrow> Inl (NetError e)
      | ReadAllFailed e \<Rightarrow> Inl (NetError e)
      | Answered data \<Rightarrow> Inr data)"

subsection \<open>The closure of \<open>LoadWeather\<close>\<close>

text \<open>
  The closure blocks in two places: in \<open>m.mu.Lock()\<close> until the mutex is free, and in
  \<open>FetchWeather(city)\<close> until the request is answered. \<open>LoadWeather_enter\<close> is the code
  from the acquired lock to the call of \<open>FetchWeather\<close>: it returns at once (left) with
  the rejection, the deferred unlock done, or goes on (right) with the flag set and
  the mutex held. \<open>LoadWeather_exit\<close> is the code from the return of \<open>FetchWeather\<close>,
  whose result is an error or the bytes of the body, to the end, where the two
  deferred calls clear the flag and unlock.
\<close>

definition LoadWeather_enter :: "Model \<Rightarrow> Model \<times> msg + Model" where
  "LoadWeather_enter m =
     (let m = m\<lparr>mu := True\<rparr>
      in if updating m then
           Inl (m\<lparr>mu := False\<rparr>,
                WeatherMsg Weather_zero (Some (Errorf ''Already fetching weather data'')))
         else Inr (m\<lparr>updating := True\<rparr>))"

definition LoadWeather_exit :: "string \<Rightarrow> error + body \<Rightarrow> Model \<Rightarrow> Model \<times> msg" where
  "LoadWeather_exit city fetched m =
     (let (m, r) =
            (case fetched of
               Inl err \<Rightarrow> (m, WeatherMsg Weather_zero (Some err))
             | Inr data \<Rightarrow>
                 (case Decode Weather_zero data of
                    (weather, Some err) \<Rightarrow> (m, WeatherMsg Weather_zero (Some err))
                  | (weather, None) \<Rightarrow>
                      (m\<lparr>w := weather, currentCity := city\<rparr>, WeatherMsg weather None)))
      in (m\<lparr>updating := False, mu := False\<rparr>, r))"

text \<open>
  The closure run from its first to its last statement with nothing else running in
  between: \<open>None\<close> when the mutex is held, in which case it does not get past the lock.
\<close>

definition LoadWeather_run :: "string \<Rightarrow> error + body \<Rightarrow> Model \<Rightarrow> (Model \<times> msg) option" where
  "LoadWeather_run city fetched m =
     (if mu m then None
      else case LoadWeather_enter m of
             Inl r \<Rightarrow> Some r
           | Inr m' \<Rightarrow> Some (LoadWeather_exit city fetched m'))"

subsection \<open>The running program\<close>

text \<open>
  The state of the running program is the model (shared, through the pointer \<open>m\<close>, by
  the event loop and by every closure), the commands handed to the runtime whose
  goroutine has not yet got past its first statement, the cities of the closures that
  are inside \<open>FetchWeather\<close>, the messages sent to the event loop and not yet
  received, and whether the process is still running.
\<close>

datatype status = Running | Exited nat | Panicked panic

record runtime =
  model :: Model
  pending :: "cmd list"
  fetching :: "string list"
  inbox :: "msg list"
  status :: status

definition enqueue :: "cmd option \<Rightarrow> cmd list \<Rightarrow> cmd list" where
  "enqueue c cs = (case c of None \<Rightarrow> cs | Some c' \<Rightarrow> cs @ [c'])"

definition remove_nth :: "nat \<Rightarrow> 'a list \<Rightarrow> 'a list" where
  "remove_nth i xs = take i xs @ drop (Suc i) xs"

text \<open>
  \<open>main\<close>: the model is \<open>Model{}\<close>; the statement \<open>go m.LoadWeather("uyo")\<close> calls
  \<open>LoadWeather\<close> on a new goroutine, which builds the closure and drops it; then
  \<open>InitTable\<close>, the debug log (the process exits with 1 when the log file cannot be
  opened), and the program is run, which calls \<open>Init\<close> and hands its command to the
  runtime.
\<close>

definition main :: "bool \<Rightarrow> runtime" where
  "main log_fails =
     (let m = Model_zero;
          dropped = LoadWeather ''uyo''
      in case InitTable m of
           Inl p \<Rightarrow> \<lparr>model = m, pending = [], fetching = [], inbox = [], status = Panicked p\<rparr>
         | Inr m \<Rightarrow>
             if log_fails then
               \<lparr>model = m, pending = [], fetching = [], inbox = [], status = Exited 1\<rparr>
             else
               (let (m, c) = Init m
                in \<lparr>model = m, pending = enqueue c [], fetching = [], inbox = [],
                    status = Running\<rparr>))"

text \<open>
  The event loop receives a message: the quit message ends the loop, any other
  message goes to \<open>Update\<close>, whose command is handed to the runtime.
\<close>

definition deliver :: "widgets \<Rightarrow> msg \<Rightarrow> runtime \<Rightarrow> runtime" where
  "deliver L ms s =
     (case ms of
        QuitMsg \<Rightarrow> s\<lparr>status := Exited 0\<rparr>
      | _ \<Rightarrow>
          (case Update L ms (model s) of
             Inl p \<Rightarrow> s\<lparr>status := Panicked p\<rparr>
           | Inr (m', c) \<Rightarrow> s\<lparr>model := m', pending := enqueue c (pending s)\<rparr>))"

text \<open>
  One step of the running program: the terminal or a widget sends a key or another
  message; the event loop receives one of the messages sent; a closure of
  \<open>LoadWeather\<close> acquires the free mutex and runs to its rejection or to its call of
  \<open>FetchWeather\<close>; a call of \<open>FetchWeather\<close> returns, on any network, and its closure
  runs to its end; one of the other commands runs and sends its message. A step is
  taken as a whole: the statements inside one step are not interleaved with other
  steps. What the closure prints with \<open>fmt.Println\<close> is left out.
\<close>

inductive step :: "widgets \<Rightarrow> runtime \<Rightarrow> runtime \<Rightarrow> bool" for L :: widgets where
  event:
    "\<lbrakk>status s = Running; ms = KeyMsg k \<or> ms = OtherMsg n\<rbrakk>
     \<Longrightarrow> step L s (s\<lparr>inbox := inbox s @ [ms]\<rparr>)"
| receive:
    "\<lbrakk>status s = Running; i < length (inbox s)\<rbrakk>
     \<Longrightarrow> step L s (deliver L (inbox s ! i) (s\<lparr>inbox := remove_nth i (inbox s)\<rparr>))"
| reject:
    "\<lbrakk>status s = Running; i < length (pending s); pending s ! i = LoadWeather city;
      \<not> mu (model s); LoadWeather_enter (model s) = Inl (m', r)\<rbrakk>
     \<Longrightarrow> step L s (s\<lparr>model := m', pending := remove_nth i (pending s), inbox := inbox s @ [r]\<rparr>)"
| fetch:
    "\<lbrakk>status s = Running; i < length (pending s); pending s ! i = LoadWeather city;
      \<not> mu (model s); LoadWeather_enter (model s) = Inr m'\<rbrakk>
     \<Longrightarrow> step L s (s\<lparr>model := m', pending := remove_nth i (pending s),
                     fetching := fetching s @ [city]\<rparr>)"
| fetched:
    "\<lbrakk>status s = Running; i < length (fetching s);
      LoadWeather_exit (fetching s ! i) (FetchWeather net (fetching s ! i)) (model s) = (m', r)\<rbrakk>
     \<Longrightarrow> step L s (s\<lparr>model := m', fetching := remove_nth i (fetching s), inbox := inbox s @ [r]\<rparr>)"
| ask:
    "\<lbrakk>status s = Running; i < length (pending s); pending s ! i = AskCity\<rbrakk>
     \<Longrightarrow> step L s (s\<lparr>pending := remove_nth i (pending s), inbox := inbox s @ [KeyMsg KeyCtrlI]\<rparr>)"
| quit:
    "\<lbrakk>status s = Running; i < length (pending s); pending s ! i = Quit\<rbrakk>
     \<Longrightarrow> step L s (s\<lparr>pending := remove_nth i (pending s), inbox := inbox s @ [QuitMsg]\<rparr>)"
| widget:
    "\<lbrakk>status s = Running; i < length (pending s); pending s ! i = WidgetCmd n\<rbrakk>
     \<Longrightarrow> step L s (s\<lparr>pending := remove_nth i (pending s), inbox := inbox s @ map OtherMsg ks\<rparr>)"

inductive reachable :: "widgets \<Rightarrow> runtime \<Rightarrow> bool" for L :: widgets where
  reach_main: "reachable L (main log_fails)"
| reach_step: "\<lbrakk>reachable L s; step L s s'\<rbrakk> \<Longrightarrow> reachable L s'"

text \<open>
  A run in which nothing arrives from outside: none of its steps only adds a message
  to those sent to the event loop, as the arrival of a key or of another message
  does. Every other step also takes a command, a fetch or a message away, or changes
  the model.
\<close>

inductive quiet :: "widgets \<Rightarrow> runtime \<Rightarrow> bool" for L :: widgets where
  quiet_main: "quiet L (main log_fails)"
| quiet_step:
    "\<lbrakk>quiet L s; step L s s'; \<forall>ms. s' \<noteq> s\<lparr>inbox := inbox s @ [ms]\<rparr>\<rbrakk> \<Longrightarrow> quiet L s'"

text \<open>
  The widget functions on a terminal without colours, to evaluate the model on
  concrete states: the styles and the cursor add nothing to the text they draw, the
  placeholder is drawn after the prompt, and a text input that has the focus puts
  the runes typed into its buffer with \<open>insertRunesFromUserInput\<close>. The keys that
  move the cursor or delete are left out, and the spinner and the table are drawn by
  stand-ins.
\<close>

definition plain :: widgets where
  "plain =
     \<lparr>spinner_View = (\<lambda>s. ''*''),
      PromptStyle = (\<lambda>x. x),
      TextStyle = (\<lambda>x. x),
      Cursor_View = (\<lambda>x. x),
      placeholderView = (\<lambda>i. Prompt i @ Placeholder i),
      textinput_Update =
        (\<lambda>i ms. if \<not> focus i then (i, None)
                 else case ms of
                        KeyMsg (KeyRunes r) \<Rightarrow> (insertRunesFromUserInput r i, None)
                      | _ \<Rightarrow> (i, None)),
      table_View = (\<lambda>t. concat (map concat (rows t))),
      Render = (\<lambda>x. x)\<rparr>"

text \<open>The styles and the cursor add nothing to the text they draw.\<close>

definition unstyled :: "widgets \<Rightarrow> bool" where
  "unstyled L \<longleftrightarrow>
     (\<forall>x. PromptStyle L x = x) \<and> (\<forall>x. TextStyle L x = x) \<and> (\<forall>x. Cursor_View L x = x)"

subsection \<open>The three view bodies\<close>

text \<open>The three strings that \<open>View\<close> assigns to \<open>view\<close>.\<close>

definition Loading_body :: "widgets \<Rightarrow> Model \<Rightarrow> string" where
  "Loading_body L m = ''\<newline>\<newline>   '' @ spinner_View L (spinner m) @ '' Loading weather data...''"

definition Prompt_body :: "widgets \<Rightarrow> Model \<Rightarrow> string" where
  "Prompt_body L m =
     ''Enter a city to see weather infor: \<newline>\<newline>'' @ textinput_View L (input m) @
     ''\<newline>\<newline>\<newline>''"

definition Table_body :: "widgets \<Rightarrow> Model \<Rightarrow> string" where
  "Table_body L m =
     ''\<newline>Showing weather data for '' @ currentCity m @ '' \<newline>'' @
     Render L (table_View L (table m))"

subsection \<open>Predicates used in the statements\<close>




definition finite_struct :: "Values_struct \<Rightarrow> bool" where
  "finite_struct v \<longleftrightarrow> is_finite (TemperatureAvg v) \<and> is_finite (HumidityAvg v)"

definition finite_values :: "daily \<Rightarrow> bool" where
  "finite_values day \<longleftrightarrow>
     is_finite (TemperatureAvg (Values day)) \<and> is_finite (HumidityAvg (Values day))"

definition finite_slice :: "daily_slice \<times> error option \<Rightarrow> bool" where
  "finite_slice a \<longleftrightarrow> (\<forall>d\<in>set (fst (fst a)). finite_values d)"

text \<open>
  A forecast is well formed when every date has at least the 10 bytes of a calendar
  date and every number is finite. The numbers of a decoded forecast are always
  finite (lemma \<open>Decode_finite\<close> below).
\<close>

definition well_formed :: "Weather \<Rightarrow> bool" where
  "well_formed wd \<longleftrightarrow>
     (\<forall>day\<in>set (Daily (Timelines wd)). 10 \<le> length (Time day) \<and> finite_values day)"

text \<open>The mutex is held exactly when the flag is set, and then by one closure that fetches.\<close>

definition mutex_guards_flag :: "runtime \<Rightarrow> bool" where
  "mutex_guards_flag s \<longleftrightarrow>
     mu (model s) = updating (model s) \<and>
     length (fetching s) = (if mu (model s) then 1 else 0)"

text \<open>
  What holds of the running program as long as nothing has arrived from outside: no
  fetch is in flight, the only command handed to the runtime is the one of \<open>Init\<close>,
  the only message sent is its key, and the model has no city and no rows.
\<close>

definition at_startup :: "runtime \<Rightarrow> bool" where
  "at_startup s \<longleftrightarrow>
     fetching s = [] \<and> set (pending s) \<subseteq> {AskCity} \<and> set (inbox s) \<subseteq> {KeyMsg KeyCtrlI} \<and>
     \<not> updating (model s) \<and> \<not> mu (model s) \<and> currentCity (model s) = '''' \<and>
     rows (table (model s)) = []"

subsection \<open>Concrete inputs\<close>

text \<open>A forecast of one day whose date has four bytes.\<close>

definition short_date :: Weather where
  "short_date = \<lparr>Timelines = \<lparr>Daily = [\<lparr>Time = ''2024'', Values = values_zero\<rparr>]\<rparr>\<rparr>"

text \<open>A body in the shape of an error page of the provider.\<close>

definition error_page :: json where
  "error_page =
     JObject [(''code'', JNumber (Inr (False, 429001, 0))),
              (''type'', JString ''Too Many Calls''),
              (''message'', JString ''The request limit for this resource has been reached'')]"

text \<open>A forecast of two days: 25.5 and 80.5, then -0.375 and 100.\<close>

definition two_days :: Weather where
  "two_days =
     \<lparr>Timelines = \<lparr>Daily =
        [\<lparr>Time = ''2024-05-01T10:00:00Z'',
          Values = \<lparr>TemperatureAvg = Finite False 51 (- 1), HumidityAvg = Finite False 161 (- 1)\<rparr>\<rparr>,
         \<lparr>Time = ''2024-05-02T10:00:00Z'',
          Values = \<lparr>TemperatureAvg = Finite True 3 (- 3), HumidityAvg = Finite False 100 0\<rparr>\<rparr>]\<rparr>\<rparr>"

text \<open>A body that decodes into the forecast of two days.\<close>

definition two_days_body :: body where
  "two_days_body =
     JSON (JObject [(''timelines'', JObject [(''daily'', JArray
       [JObject [(''time'', JString ''2024-05-01T10:00:00Z''),
                 (''values'', JObject [(''temperatureAvg'', JNumber (Inr (False, 51, - 1))),
                                      (''humidityAvg'', JNumber (Inr (False, 161, - 1)))])],
        JObject [(''time'', JString ''2024-05-02T10:00:00Z''),
                 (''values'', JObject [(''temperatureAvg'', JNumber (Inr (True, 3, - 3))),
                                      (''humidityAvg'', JNumber (Inr (False, 100, 0)))])]])])])"

text \<open>
  States of the running program after the start. The command of \<open>Init\<close> has run and
  its key has been received: the prompt is open. Then the user has typed "uyo" and
  pressed Enter, and the closure is inside \<open>FetchWeather\<close>. Then, the fetch still in
  flight, the user has pressed ctrl+r; or else has pressed ctrl+i.
\<close>

definition prompt_open :: runtime where
  "prompt_open =
     (main False)
       \<lparr>model := (model (main False))
                   \<lparr>gettingInput := True, input := Focus (input (model (main False)))\<rparr>,
        pending := []\<rparr>"

definition fetching_state :: runtime where
  "fetching_state =
     prompt_open
       \<lparr>model := (model prompt_open)
                   \<lparr>gettingInput := False,
                    input := (input (model prompt_open))
                               \<lparr>Value := ''uyo'', pos := 3, offsetRight := 3\<rparr>,
                    mu := True, updating := True\<rparr>,
        fetching := [''uyo'']\<rparr>"

definition second_request :: runtime where
  "second_request = fetching_state\<lparr>pending := [LoadWeather '''']\<rparr>"

definition prompt_while_fetching :: runtime where
  "prompt_while_fetching =
     fetching_state\<lparr>model := (model fetching_state)\<lparr>gettingInput := True\<rparr>\<rparr>"

text \<open>
  The prompt is open after the start and sixty letters z have arrived in it as one
  key message, as they do when they are pasted.
\<close>

definition long_city :: runtime where
  "long_city =
     prompt_open
       \<lparr>model := (model prompt_open)
                   \<lparr>input := (input (model prompt_open))
                               \<lparr>Value := replicate 60 CHR ''z'', pos := 60, offset := 10,
                                offsetRight := 60\<rparr>\<rparr>\<rparr>"

section \<open>Properties\<close>

subsection \<open>Formatting\<close>





text \<open>
  The number that \<open>%.2f\<close> prints is the value in hundredths, exactly when the value
  is a whole number, and otherwise within half a hundredth of it.
\<close>

lemma hundredths_exact: "0 \<le> e \<Longrightarrow> hundredths m e = m * 2 ^ nat e * 100"
  by (simp add: hundredths_def)

lemma hundredths_nearest:
  assumes "e < 0"
  shows "2 * (m * 100) \<le> 2 * (hundredths m e * 2 ^ nat (- e)) + 2 ^ nat (- e) \<and>
         2 * (hundredths m e * 2 ^ nat (- e)) \<le> 2 * (m * 100) + 2 ^ nat (- e)"
proof -
  define d :: nat where "d = 2 ^ nat (- e)"
  define n where "n = m * 100"
  define q where "q = n div d"
  define r where "r = n mod d"
  have dpos: "0 < d" by (simp add: d_def)
  have n: "n = q * d + r" by (simp add: q_def r_def)
  have r: "r < d" using dpos by (simp add: r_def)
  have h: "hundredths m e = (if d < 2 * r \<or> (2 * r = d \<and> odd q) then q + 1 else q)"
    using assms by (simp add: hundredths_def Let_def d_def n_def q_def r_def)
  show ?thesis
  proof (cases "d < 2 * r \<or> (2 * r = d \<and> odd q)")
    case True
    then have "hundredths m e = q + 1" using h by simp
    moreover have "d \<le> 2 * r" using True by auto
    ultimately show ?thesis
      unfolding d_def [symmetric] n_def [symmetric] using n r by (simp add: algebra_simps)
  next
    case False
    then have "hundredths m e = q" using h by simp
    moreover have "2 * r \<le> d" using False by auto
    ultimately show ?thesis
      unfolding d_def [symmetric] n_def [symmetric] using n r by (simp add: algebra_simps)
  qed
qed

subsection \<open>The rows of the table\<close>


lemma table_rows_panics:
  "\<exists>day\<in>set days. length (Time day) < 10 \<Longrightarrow> \<exists>p. table_rows deg days rs = Inl p"
  by (induction days arbitrary: rs) (auto simp: slice_to_def)



subsection \<open>Decoding\<close>

text \<open>
  Bytes that are not JSON; an invariant of a fold; every number of a decoded forecast is finite.
\<close>

lemma Decode_NotJSON: "Decode w0 NotJSON = (w0, Some SyntaxError)"
  by (simp add: Decode_def Unmarshal_def)

lemma fold_invariant:
  "\<lbrakk>P acc; \<And>x a. P a \<Longrightarrow> P (f x a)\<rbrakk> \<Longrightarrow> P (fold f xs acc)"
  by (induction xs arbitrary: acc) simp_all

lemma decode_float64_finite:
  "is_finite v \<Longrightarrow> is_finite (fst (decode_float64 j (v, err)))"
  by (cases "(j, (v, err))" rule: decode_float64.cases) simp_all

lemma Values_member_finite:
  "finite_struct (fst a) \<Longrightarrow> finite_struct (fst (Values_member x a))"
proof -
  assume fin: "finite_struct (fst a)"
  obtain key j where x: "x = (key, j)" by (cases x)
  obtain v err where a: "a = (v, err)" by (cases a)
  show ?thesis
    using fin decode_float64_finite [of "TemperatureAvg v" j err]
      decode_float64_finite [of "HumidityAvg v" j err]
    unfolding x a by (auto simp: finite_struct_def Let_def split: prod.splits)
qed

lemma decode_Values_finite:
  "finite_struct v \<Longrightarrow> finite_struct (fst (decode_Values j (v, err)))"
proof (cases j)
  case (JObject ms)
  assume "finite_struct v"
  then have "finite_struct (fst (fold Values_member ms (v, err)))"
    by (intro fold_invariant [where P = "\<lambda>a. finite_struct (fst a)"] Values_member_finite) simp_all
  with JObject show ?thesis by simp
qed simp_all

lemma daily_member_finite:
  "finite_values (fst a) \<Longrightarrow> finite_values (fst (daily_member x a))"
proof -
  assume fin: "finite_values (fst a)"
  obtain key j where x: "x = (key, j)" by (cases x)
  obtain d err where a: "a = (d, err)" by (cases a)
  show ?thesis
    using fin decode_Values_finite [of "Values d" j err]
    unfolding x a by (auto simp: finite_values_def finite_struct_def Let_def split: prod.splits)
qed

lemma decode_daily_finite:
  "finite_values d \<Longrightarrow> finite_values (fst (decode_daily j (d, err)))"
proof (cases j)
  case (JObject ms)
  assume "finite_values d"
  then have "finite_values (fst (fold daily_member ms (d, err)))"
    by (intro fold_invariant [where P = "\<lambda>a. finite_values (fst a)"] daily_member_finite) simp_all
  with JObject show ?thesis by simp
qed simp_all

lemma daily_zero_finite: "finite_values daily_zero"
  by (simp add: finite_values_def daily_zero_def values_zero_def float64_zero_def)

lemma decode_elems_finite:
  "\<lbrakk>\<forall>d\<in>set arr. finite_values d; i \<le> length arr\<rbrakk>
   \<Longrightarrow> \<forall>d\<in>set (fst (decode_elems js i (arr, err))). finite_values d"
proof (induction js arbitrary: arr i err)
  case Nil
  then show ?case by simp
next
  case (Cons j js)
  let ?arr1 = "if i < length arr then arr else arr @ [daily_zero]"
  obtain d err' where dj: "decode_daily j (?arr1 ! i, err) = (d, err')"
    by (cases "decode_daily j (?arr1 ! i, err)")
  have fin1: "\<forall>d\<in>set ?arr1. finite_values d"
    using Cons.prems(1) by (simp add: daily_zero_finite)
  have i1: "i < length ?arr1" using Cons.prems(2) by simp
  then have "finite_values (?arr1 ! i)" using fin1 by (metis nth_mem)
  then have "finite_values d"
    using decode_daily_finite [of "?arr1 ! i" j err] dj by simp
  then have fin2: "\<forall>x\<in>set (?arr1[i := d]). finite_values x"
    using fin1 set_update_subset_insert [of ?arr1 i d] by blast
  have i2: "i + 1 \<le> length (?arr1[i := d])" using i1 by simp
  have "decode_elems (j # js) i (arr, err) = decode_elems js (i + 1) (?arr1[i := d], err')"
    using dj by (simp add: Let_def)
  then show ?case using Cons.IH [OF fin2 i2] by simp
qed

lemma decode_Daily_finite:
  "finite_slice (sl, err) \<Longrightarrow> finite_slice (decode_Daily j (sl, err))"
proof (cases j)
  case (JArray js)
  assume fin: "finite_slice (sl, err)"
  obtain arr n where sl: "sl = (arr, n)" by (cases sl)
  from fin sl have fin': "\<forall>d\<in>set arr. finite_values d" by (simp add: finite_slice_def)
  show ?thesis
  proof (cases "js = []")
    case True
    with JArray sl show ?thesis by (simp add: finite_slice_def)
  next
    case False
    with JArray sl show ?thesis
      using decode_elems_finite [OF fin', of 0 js err]
      by (simp add: Let_def finite_slice_def split: prod.splits)
  qed
qed (cases sl; simp add: finite_slice_def)+

lemma timelines_member_finite: "finite_slice a \<Longrightarrow> finite_slice (timelines_member x a)"
  by (cases x; cases a) (simp add: decode_Daily_finite)

lemma decode_timelines_finite:
  "finite_slice (sl, err) \<Longrightarrow> finite_slice (decode_timelines j (sl, err))"
proof (cases j)
  case (JObject ms)
  assume "finite_slice (sl, err)"
  then have "finite_slice (fold timelines_member ms (sl, err))"
    by (intro fold_invariant [where P = finite_slice] timelines_member_finite)
  with JObject show ?thesis by simp
qed (simp_all add: finite_slice_def)

lemma Weather_member_finite: "finite_slice a \<Longrightarrow> finite_slice (Weather_member x a)"
  by (cases x; cases a) (simp add: decode_timelines_finite)

lemma decode_Weather_finite:
  "finite_slice (sl, err) \<Longrightarrow> finite_slice (decode_Weather j (sl, err))"
proof (cases j)
  case (JObject ms)
  assume "finite_slice (sl, err)"
  then have "finite_slice (fold Weather_member ms (sl, err))"
    by (intro fold_invariant [where P = finite_slice] Weather_member_finite)
  with JObject show ?thesis by simp
qed (simp_all add: finite_slice_def)

lemma Decode_finite:
  assumes "\<forall>d\<in>set (Daily (Timelines w0)). finite_values d"
  shows "\<forall>d\<in>set (Daily (Timelines (fst (Decode w0 data)))). finite_values d"
proof (cases data)
  case NotJSON
  with assms show ?thesis by (simp add: Decode_def Unmarshal_def)
next
  case (JSON j)
  let ?sl = "(Daily (Timelines w0), length (Daily (Timelines w0)))"
  obtain arr n err where d: "decode_Weather j (?sl, None) = ((arr, n), err)"
    by (cases "decode_Weather j (?sl, None)") auto
  have "finite_slice (decode_Weather j (?sl, None))"
    using assms by (intro decode_Weather_finite) (simp add: finite_slice_def)
  then have "\<forall>d\<in>set arr. finite_values d" using d by (simp add: finite_slice_def)
  then have "\<forall>d\<in>set (take n arr). finite_values d"
    by (meson in_set_takeD)
  then show ?thesis using JSON d by (simp add: Decode_def Unmarshal_def)
qed

text \<open>
  A decoded forecast whose dates are long enough is well formed, and the body
  \<open>{"timelines":{"daily":[...]}}\<close> decodes into as many days as the array has elements.
\<close>

lemma decoded_well_formed:
  "\<lbrakk>Decode Weather_zero data = (wd, err);
    \<forall>day\<in>set (Daily (Timelines wd)). 10 \<le> length (Time day)\<rbrakk>
   \<Longrightarrow> well_formed wd"
  using Decode_finite [of Weather_zero data]
  by (simp add: well_formed_def Weather_zero_def)

lemma decode_elems_length:
  "i \<le> length arr \<Longrightarrow>
   length (fst (decode_elems js i (arr, err))) = max (length arr) (i + length js)"
proof (induction js arbitrary: arr i err)
  case Nil
  then show ?case by simp
next
  case (Cons j js)
  let ?arr1 = "if i < length arr then arr else arr @ [daily_zero]"
  obtain d err' where dj: "decode_daily j (?arr1 ! i, err) = (d, err')"
    by (cases "decode_daily j (?arr1 ! i, err)")
  have len1: "length (?arr1[i := d]) = max (length arr) (i + 1)"
    using Cons.prems by simp
  have "decode_elems (j # js) i (arr, err) = decode_elems js (i + 1) (?arr1[i := d], err')"
    using dj by (simp add: Let_def)
  moreover have "length (fst (decode_elems js (i + 1) (?arr1[i := d], err'))) =
      max (length (?arr1[i := d])) (i + 1 + length js)"
    by (rule Cons.IH) (use Cons.prems in simp)
  ultimately show ?case using len1 by simp
qed

lemma Decode_daily_count:
  "length (Daily (Timelines (fst (Decode Weather_zero
      (JSON (JObject [(''timelines'', JObject [(''daily'', JArray js)])])))))) = length js"
proof (cases "js = []")
  case True
  then show ?thesis
    by (simp add: Decode_def Unmarshal_def Weather_zero_def field_matches_def)
next
  case False
  obtain arr' err' where d: "decode_elems js 0 ([], None) = (arr', err')"
    by (cases "decode_elems js 0 ([], None)")
  have "length arr' = length js"
    using decode_elems_length [of 0 "[]" js None] d by simp
  with False d show ?thesis
    by (simp add: Decode_def Unmarshal_def Weather_zero_def field_matches_def)
qed

text \<open>
  Keys that select the field \<open>timelines\<close> and keys that do not; members that select no
  field leave the target as it is; the body of two days.
\<close>

lemma field_matches_examples:
  "field_matches ''timelines'' ''timelines'' \<and>
   field_matches ''timelines'' ''TimeLines'' \<and>
   field_matches ''timelines'' (''timeline'' @ [CHR 0xC5, CHR 0xBF]) \<and>
   \<not> field_matches ''timelines'' ''timeline'' \<and>
   \<not> field_matches ''timelines'' ''daily''"
  by (simp add: field_matches_def upper_def)

lemma fold_Weather_member_unrelated:
  "\<forall>member\<in>set ms. \<not> field_matches ''timelines'' (fst member) \<Longrightarrow>
   fold Weather_member ms a = a"
proof (induction ms arbitrary: a)
  case Nil
  then show ?case by simp
next
  case (Cons x ms)
  obtain key j where x: "x = (key, j)" by (cases x)
  obtain sl err where a: "a = (sl, err)" by (cases a)
  from Cons.prems x have "\<not> field_matches ''timelines'' key" by simp
  then have "Weather_member x a = a" by (simp add: x a)
  with Cons show ?case by simp
qed

lemma Decode_two_days_body: "Decode Weather_zero two_days_body = (two_days, None)"
  by (simp add: two_days_body_def two_days_def Decode_def Unmarshal_def Weather_zero_def
        field_matches_def daily_zero_def values_zero_def float64_zero_def Let_def)

subsection \<open>The mutex and the flag\<close>

text \<open>
  \<open>Update\<close> and the event loop leave the flag and the mutex alone, so in every reachable state
  the mutex is held exactly when the flag is set, by the one closure that is fetching.
\<close>

lemma InitTable_keeps_lock:
  "InitTable m = Inr m' \<Longrightarrow> mu m' = mu m \<and> updating m' = updating m \<and> gettingInput m' = gettingInput m \<and> currentCity m' = currentCity m \<and> w m' = w m"
  by (auto simp: InitTable_def Let_def split: sum.splits)

lemma Update_keeps_lock:
  "Update L ms m = Inr (m', c) \<Longrightarrow> mu m' = mu m \<and> updating m' = updating m"
proof (cases ms)
  case (WeatherMsg mw merr)
  assume "Update L ms m = Inr (m', c)"
  with WeatherMsg show ?thesis
    by (auto split: if_splits sum.splits dest!: InitTable_keeps_lock)
next
  case (KeyMsg k)
  assume "Update L ms m = Inr (m', c)"
  with KeyMsg show ?thesis
    by (cases k) (auto simp: Update_input_def Let_def split: if_splits prod.splits)
next
  case QuitMsg
  assume "Update L ms m = Inr (m', c)"
  with QuitMsg show ?thesis
    by (auto simp: Update_input_def Let_def split: if_splits prod.splits)
next
  case (OtherMsg n)
  assume "Update L ms m = Inr (m', c)"
  with OtherMsg show ?thesis
    by (auto simp: Update_input_def Let_def split: if_splits prod.splits)
qed

lemma deliver_keeps_lock:
  "mu (model (deliver L ms s)) = mu (model s) \<and>
   updating (model (deliver L ms s)) = updating (model s) \<and>
   fetching (deliver L ms s) = fetching s"
proof (cases "Update L ms (model s)")
  case (Inl p)
  then show ?thesis by (cases ms) (simp_all add: deliver_def)
next
  case (Inr r)
  obtain m' c where r: "r = (m', c)" by (cases r)
  from Inr r have "mu m' = mu (model s) \<and> updating m' = updating (model s)"
    by (auto dest: Update_keeps_lock)
  with Inr r show ?thesis by (cases ms) (simp_all add: deliver_def)
qed

lemma main_guards: "mutex_guards_flag (main log_fails)"
  by (auto simp: mutex_guards_flag_def main_def InitTable_def Init_def Let_def Model_zero_def
        Weather_zero_def split: sum.splits)

lemma step_guards: "step L s s' \<Longrightarrow> mutex_guards_flag s \<Longrightarrow> mutex_guards_flag s'"
proof (induction rule: step.induct)
  case (receive s i)
  then show ?case by (simp add: mutex_guards_flag_def deliver_keeps_lock)
next
  case (fetched s i net m' r)
  then show ?case
    by (auto simp: mutex_guards_flag_def LoadWeather_exit_def remove_nth_def split: if_splits prod.splits sum.splits option.splits)
qed (auto simp: mutex_guards_flag_def LoadWeather_enter_def Let_def split: if_splits)

lemma reachable_guards: "reachable L s \<Longrightarrow> mutex_guards_flag s"
  by (induction rule: reachable.induct) (auto intro: main_guards step_guards)

text \<open>
  A closure that gets the mutex never rejects; a closure started while the flag is set does
  not get past the lock; at most one call of \<open>FetchWeather\<close> is outstanding.
\<close>

lemma reachable_never_rejects:
  "\<lbrakk>reachable L s; \<not> mu (model s)\<rbrakk>
   \<Longrightarrow> LoadWeather_enter (model s) = Inr ((model s)\<lparr>mu := True, updating := True\<rparr>)"
  using reachable_guards [of L s] by (simp add: mutex_guards_flag_def LoadWeather_enter_def)

lemma reachable_request_waits:
  "\<lbrakk>reachable L s; updating (model s)\<rbrakk> \<Longrightarrow> LoadWeather_run city fetched (model s) = None"
  using reachable_guards [of L s] by (simp add: mutex_guards_flag_def LoadWeather_run_def)

lemma reachable_one_fetch: "reachable L s \<Longrightarrow> length (fetching s) \<le> 1"
  using reachable_guards [of L s] by (simp add: mutex_guards_flag_def)

lemma reachable_fetching_updating:
  "\<lbrakk>reachable L s; fetching s \<noteq> []\<rbrakk> \<Longrightarrow> updating (model s)"
  using reachable_guards [of L s] by (auto simp: mutex_guards_flag_def split: if_splits)

subsection \<open>Concrete runs\<close>

text \<open>
  The start state, and the runs that lead to the concrete states.
\<close>

lemma scan_left_unit: "scan_left W runes i n = i - (W - n)"
proof (induction W runes i n rule: scan_left.induct)
  case (1 W runes i n)
  show ?case
  proof (cases "0 < i \<and> n < W")
    case True
    with 1 show ?thesis by (simp add: scan_left.simps [of W runes i n] RuneWidth_def)
  next
    case False
    then show ?thesis by (auto simp add: scan_left.simps [of W runes i n])
  qed
qed

lemma handleOverflow_fits:
  "Width i = 0 \<or> length (Value i) \<le> Width i \<Longrightarrow>
   handleOverflow i = i\<lparr>offset := 0, offsetRight := length (Value i)\<rparr>"
  by (simp add: handleOverflow_def)

lemma main_False:
  "main False =
     \<lparr>model = Model_zero\<lparr>table := (table_New [(''Time'', 10), (''Temperature'', 15), (''Humidity'', 10)] [] (Some 9))
                               \<lparr>Header := \<lparr>BorderStyle = NormalBorder, BorderBottom = True, Bold = False\<rparr>\<rparr>,
                          input := \<lparr>Prompt = ''> '', Placeholder = ''Enter city name'', CharLimit = 100,
                                    Width = 50, focus = False, Value = '''', pos = 0, offset = 0,
                                    offsetRight = 0\<rparr>,
                          spinner := \<lparr>Spinner = Dot, Foreground = Some ''205''\<rparr>\<rparr>,
      pending = [AskCity], fetching = [], inbox = [], status = Running\<rparr>"
  by (simp add: main_def InitTable_def Init_def Let_def Model_zero_def Weather_zero_def enqueue_def
       table_New_def DefaultStyles_def textinput_New_def spinner_New_def)

lemma reachable_prompt_open: "reachable plain prompt_open"
proof -
  let ?s0 = "main False"
  let ?s1 = "?s0\<lparr>pending := [], inbox := [KeyMsg KeyCtrlI]\<rparr>"
  have r0: "reachable plain ?s0" by (rule reachable.reach_main)
  have "step plain ?s0 ?s1"
    using step.ask [of ?s0 0 plain] by (simp add: main_False remove_nth_def)
  with r0 have r1: "reachable plain ?s1" by (rule reachable.reach_step)
  have "step plain ?s1 prompt_open"
    using step.receive [of ?s1 0 plain]
    by (simp add: prompt_open_def main_False deliver_def remove_nth_def enqueue_def
          Model_zero_def)
  with r1 show ?thesis by (rule reachable.reach_step)
qed

lemma reachable_fetching_state: "reachable plain fetching_state"
proof -
  let ?typed = "(model prompt_open)\<lparr>input := (input (model prompt_open))
                                            \<lparr>Value := ''uyo'', pos := 3, offsetRight := 3\<rparr>\<rparr>"
  let ?s1 = "prompt_open\<lparr>inbox := [KeyMsg (KeyRunes ''uyo'')]\<rparr>"
  let ?s2 = "prompt_open\<lparr>model := ?typed\<rparr>"
  let ?s3 = "?s2\<lparr>inbox := [KeyMsg KeyEnter]\<rparr>"
  let ?s4 = "?s2\<lparr>model := ?typed\<lparr>gettingInput := False\<rparr>, pending := [LoadWeather ''uyo'']\<rparr>"
  have "step plain prompt_open ?s1"
    using step.event [of prompt_open "KeyMsg (KeyRunes ''uyo'')" "KeyRunes ''uyo''" 0 plain]
    by (simp add: prompt_open_def main_False)
  with reachable_prompt_open have r1: "reachable plain ?s1" by (rule reachable.reach_step)
  have "step plain ?s1 ?s2"
    using step.receive [of ?s1 0 plain]
    by (simp add: prompt_open_def main_False deliver_def remove_nth_def enqueue_def
          Model_zero_def Update_input_def plain_def Focus_def insertRunesFromUserInput_def
          handleOverflow_def numeral_3_eq_3)
  with r1 have r2: "reachable plain ?s2" by (rule reachable.reach_step)
  have "step plain ?s2 ?s3"
    using step.event [of ?s2 "KeyMsg KeyEnter" KeyEnter 0 plain]
    by (simp add: prompt_open_def main_False)
  with r2 have r3: "reachable plain ?s3" by (rule reachable.reach_step)
  have "step plain ?s3 ?s4"
    using step.receive [of ?s3 0 plain]
    by (simp add: prompt_open_def main_False deliver_def remove_nth_def enqueue_def
          Model_zero_def Focus_def)
  with r3 have r4: "reachable plain ?s4" by (rule reachable.reach_step)
  have "step plain ?s4 fetching_state"
    using step.fetch [of ?s4 0 "''uyo''" "model fetching_state" plain]
    by (simp add: fetching_state_def prompt_open_def main_False LoadWeather_enter_def
          remove_nth_def Model_zero_def Focus_def)
  with r4 show ?thesis by (rule reachable.reach_step)
qed

lemma reachable_second_request: "reachable plain second_request"
proof -
  let ?s1 = "fetching_state\<lparr>inbox := [KeyMsg KeyCtrlR]\<rparr>"
  have "step plain fetching_state ?s1"
    using step.event [of fetching_state "KeyMsg KeyCtrlR" KeyCtrlR 0 plain]
    by (simp add: fetching_state_def prompt_open_def main_False)
  with reachable_fetching_state have r1: "reachable plain ?s1" by (rule reachable.reach_step)
  have "step plain ?s1 second_request"
    using step.receive [of ?s1 0 plain]
    by (simp add: second_request_def fetching_state_def prompt_open_def main_False deliver_def
          remove_nth_def enqueue_def Model_zero_def Focus_def)
  with r1 show ?thesis by (rule reachable.reach_step)
qed

lemma reachable_prompt_while_fetching: "reachable plain prompt_while_fetching"
proof -
  let ?s1 = "fetching_state\<lparr>inbox := [KeyMsg KeyCtrlI]\<rparr>"
  have "step plain fetching_state ?s1"
    using step.event [of fetching_state "KeyMsg KeyCtrlI" KeyCtrlI 0 plain]
    by (simp add: fetching_state_def prompt_open_def main_False)
  with reachable_fetching_state have r1: "reachable plain ?s1" by (rule reachable.reach_step)
  have "step plain ?s1 prompt_while_fetching"
    using step.receive [of ?s1 0 plain]
    by (simp add: prompt_while_fetching_def fetching_state_def prompt_open_def main_False
          deliver_def remove_nth_def enqueue_def Model_zero_def Focus_def)
  with r1 show ?thesis by (rule reachable.reach_step)
qed

lemma reachable_long_city: "reachable plain long_city"
proof -
  let ?s1 = "prompt_open\<lparr>inbox := [KeyMsg (KeyRunes (replicate 60 CHR ''z''))]\<rparr>"
  have "step plain prompt_open ?s1"
    using step.event [of prompt_open "KeyMsg (KeyRunes (replicate 60 CHR ''z''))"
        "KeyRunes (replicate 60 CHR ''z'')" 0 plain]
    by (simp add: prompt_open_def main_False)
  with reachable_prompt_open have r1: "reachable plain ?s1" by (rule reachable.reach_step)
  have i: "insertRunesFromUserInput (replicate 60 CHR ''z'') (input (model prompt_open)) =
        (input (model prompt_open))
           \<lparr>Value := replicate 60 CHR ''z'', pos := 60, offset := 10, offsetRight := 60\<rparr>"
    by (simp add: insertRunesFromUserInput_def handleOverflow_def Let_def prompt_open_def
          main_False Focus_def scan_left_unit)
  have "deliver plain (KeyMsg (KeyRunes (replicate 60 CHR ''z''))) prompt_open = long_city"
    using i
    by (simp add: deliver_def Update_input_def plain_def long_city_def enqueue_def
          prompt_open_def main_False Focus_def)
  then have "step plain ?s1 long_city"
    using step.receive [of ?s1 0 plain]
    by (simp add: remove_nth_def prompt_open_def main_False)
  with r1 show ?thesis by (rule reachable.reach_step)
qed

subsection \<open>Runs in which nothing arrives from outside\<close>

text \<open>
  Such a run takes the command of \<open>Init\<close>, receives its key and opens the prompt, and
  that is all.
\<close>

lemma set_remove_nth: "set (remove_nth i xs) \<subseteq> set xs"
  unfolding remove_nth_def using set_take_subset [of i xs] set_drop_subset [of "Suc i" xs]
  by auto

lemma main_at_startup: "at_startup (main log_fails)"
  by (cases log_fails)
     (simp_all add: at_startup_def main_def InitTable_def Init_def Let_def Model_zero_def
        Weather_zero_def enqueue_def table_New_def DefaultStyles_def)

lemma step_at_startup:
  assumes "at_startup s" and "step L s s'" and "\<forall>ms. s' \<noteq> s\<lparr>inbox := inbox s @ [ms]\<rparr>"
  shows "at_startup s'"
  using assms(2)
proof (cases rule: step.cases)
  case (event ms k n)
  with assms(3) show ?thesis by blast
next
  case (receive i)
  from assms(1) receive(3) have "inbox s ! i \<in> {KeyMsg KeyCtrlI}"
    unfolding at_startup_def using nth_mem by blast
  then have k: "inbox s ! i = KeyMsg KeyCtrlI" by simp
  from assms(1) have "set (remove_nth i (inbox s)) \<subseteq> {KeyMsg KeyCtrlI}"
    unfolding at_startup_def using set_remove_nth [of i "inbox s"] by blast
  with assms(1) show ?thesis
    unfolding receive(1) k by (simp add: at_startup_def deliver_def enqueue_def)
next
  case (reject i city m' r)
  from assms(1) reject(3) have "pending s ! i \<in> {AskCity}"
    unfolding at_startup_def using nth_mem by blast
  with reject(4) show ?thesis by simp
next
  case (fetch i city m')
  from assms(1) fetch(3) have "pending s ! i \<in> {AskCity}"
    unfolding at_startup_def using nth_mem by blast
  with fetch(4) show ?thesis by simp
next
  case (fetched i net m' r)
  with assms(1) show ?thesis by (simp add: at_startup_def)
next
  case (ask i)
  from assms(1) have "set (remove_nth i (pending s)) \<subseteq> {AskCity}"
    unfolding at_startup_def using set_remove_nth [of i "pending s"] by blast
  with assms(1) show ?thesis
    unfolding ask(1) by (simp add: at_startup_def)
next
  case (quit i)
  from assms(1) quit(3) have "pending s ! i \<in> {AskCity}"
    unfolding at_startup_def using nth_mem by blast
  with quit(4) show ?thesis by simp
next
  case (widget i n ks)
  from assms(1) widget(3) have "pending s ! i \<in> {AskCity}"
    unfolding at_startup_def using nth_mem by blast
  with widget(4) show ?thesis by simp
qed

lemma quiet_at_startup: "quiet L s \<Longrightarrow> at_startup s"
  by (induction rule: quiet.induct) (simp_all add: main_at_startup step_at_startup)

lemma quiet_prompt_open: "quiet plain prompt_open"
proof -
  let ?s0 = "main False"
  let ?s1 = "?s0\<lparr>pending := [], inbox := [KeyMsg KeyCtrlI]\<rparr>"
  have q0: "quiet plain ?s0" by (rule quiet.quiet_main)
  have "step plain ?s0 ?s1"
    using step.ask [of ?s0 0 plain] by (simp add: main_False remove_nth_def)
  moreover have "\<forall>ms. ?s1 \<noteq> ?s0\<lparr>inbox := inbox ?s0 @ [ms]\<rparr>"
  proof
    fix ms
    have "pending ?s1 \<noteq> pending (?s0\<lparr>inbox := inbox ?s0 @ [ms]\<rparr>)"
      by (simp add: main_False)
    then show "?s1 \<noteq> ?s0\<lparr>inbox := inbox ?s0 @ [ms]\<rparr>" by metis
  qed
  ultimately have q1: "quiet plain ?s1" using q0 by (intro quiet.quiet_step [of plain ?s0 ?s1])
  have "step plain ?s1 prompt_open"
    using step.receive [of ?s1 0 plain]
    by (simp add: prompt_open_def main_False deliver_def remove_nth_def enqueue_def
          Model_zero_def)
  moreover have "\<forall>ms. prompt_open \<noteq> ?s1\<lparr>inbox := inbox ?s1 @ [ms]\<rparr>"
  proof
    fix ms
    have "inbox prompt_open \<noteq> inbox (?s1\<lparr>inbox := inbox ?s1 @ [ms]\<rparr>)"
      by (simp add: prompt_open_def main_False)
    then show "prompt_open \<noteq> ?s1\<lparr>inbox := inbox ?s1 @ [ms]\<rparr>" by metis
  qed
  ultimately show ?thesis using q1 by (intro quiet.quiet_step [of plain ?s1 prompt_open])
qed

text \<open>\<open>Init\<close> of \<open>src/main.go\<close> hands the fetch for "uyo" to the runtime.\<close>

lemma Init_main_go_fetches: "snd (Init_main_go m) = Some (LoadWeather ''uyo'')"
  by (simp add: Init_main_go_def)

subsection \<open>The bodies of \<open>View\<close>\<close>

text \<open>
  \<open>View\<close> by cases, and when it shows which body.
\<close>

lemma View_cases:
  "View L m =
     (if gettingInput m then Prompt_body L m
      else if updating m then Loading_body L m else Table_body L m) @ help_line"
  by (simp add: View_def Prompt_body_def Loading_body_def Table_body_def)

lemma View_bodies:
  "(View L m = Loading_body L m @ help_line) = (updating m \<and> \<not> gettingInput m) \<and>
   (View L m = Prompt_body L m @ help_line) = gettingInput m \<and>
   (View L m = Table_body L m @ help_line) = (\<not> updating m \<and> \<not> gettingInput m)"
  by (simp add: View_cases Prompt_body_def Loading_body_def Table_body_def)

text \<open>
  What the text input draws when the styles and the cursor add nothing: the prompt,
  the runes of the buffer inside the window, and spaces.
\<close>

lemma textinput_View_unstyled:
  assumes "unstyled L" and "Value i \<noteq> [] \<or> Placeholder i = []"
  shows "textinput_View L i =
     (let shown = take (offsetRight i - offset i) (drop (offset i) (Value i))
      in Prompt i @ shown @
         replicate (if 0 < Width i \<and> length shown \<le> Width i then Width i - length shown + 1
                    else if pos i - offset i < length shown then 0 else 1) CHR '' '')"
proof -
  let ?shown = "take (offsetRight i - offset i) (drop (offset i) (Value i))"
  let ?p = "pos i - offset i"
  have styles: "PromptStyle L = (\<lambda>x. x)" "TextStyle L = (\<lambda>x. x)" "Cursor_View L = (\<lambda>x. x)"
    using assms(1) by (auto simp add: unstyled_def)
  have cut: "?p < length ?shown \<Longrightarrow> take ?p ?shown @ [?shown ! ?p] @ drop (?p + 1) ?shown = ?shown"
    by (metis Cons_nth_drop_Suc append_Cons append_Nil append_take_drop_id Suc_eq_plus1)
  have whole: "\<not> ?p < length ?shown \<Longrightarrow> take ?p ?shown = ?shown"
    by (meson take_all not_less)
  show ?thesis
  proof (cases "?p < length ?shown")
    case True
    with assms(2) cut [OF True] show ?thesis
      unfolding textinput_View_def Let_def styles by auto
  next
    case False
    with assms(2) whole [OF False] show ?thesis
      unfolding textinput_View_def Let_def styles
      by (auto simp add: replicate_append_same)
  qed
qed

lemma count_list_replicate_same: "count_list (replicate n x) x = n"
  by (induction n) simp_all

subsection \<open>The closure of \<open>LoadWeather\<close> and failed fetches\<close>

text \<open>
  C10. A closure that has passed the check \<open>if m.updating\<close> has set the flag, and
  whatever \<open>FetchWeather\<close> returns (an error, bytes that do not decode, bytes that do)
  the flag is false in the model the closure leaves behind when it returns its
  \<open>WeatherMsg\<close>: the deferred function clears it on every exit path.
\<close>

theorem LoadWeather_clears_updating:
  "LoadWeather_enter m = Inr m1 \<Longrightarrow>
     updating m1 \<and> \<not> updating (fst (LoadWeather_exit city fetched m1))"
  by (auto simp: LoadWeather_enter_def LoadWeather_exit_def Let_def
           split: if_splits sum.splits option.splits prod.splits)

theorem LoadWeather_clears_updating_witness:
  "LoadWeather_enter Model_zero = Inr (Model_zero\<lparr>mu := True, updating := True\<rparr>) \<and>
   updating (Model_zero\<lparr>mu := True, updating := True\<rparr>) \<and>
   \<not> updating (fst (LoadWeather_exit ''uyo'' (Inl (NetError ''timeout''))
                    (Model_zero\<lparr>mu := True, updating := True\<rparr>)))"
proof -
  have h: "LoadWeather_enter Model_zero = Inr (Model_zero\<lparr>mu := True, updating := True\<rparr>)"
    by (simp add: LoadWeather_enter_def Model_zero_def)
  show ?thesis
    using h LoadWeather_clears_updating [OF h, of "''uyo''" "Inl (NetError ''timeout'')"] by simp
qed

text \<open>
  C2. When \<open>FetchWeather\<close> returns an error \<open>e\<close>, or returns bytes on which \<open>Decode\<close>
  returns the error \<open>e\<close>, the closure changes nothing in the model but the flag
  \<open>updating\<close> (cleared) and the mutex (released): the stored forecast, the table and
  \<open>currentCity\<close> are as before. The message it returns carries \<open>e\<close>, and \<open>Update\<close>
  on that message returns the model it was given, with no command and without a
  panic.
\<close>

theorem failed_fetch_keeps_view:
  assumes "fetched = Inl e \<or> (fetched = Inr data \<and> snd (Decode Weather_zero data) = Some e)"
  shows "LoadWeather_exit city fetched m =
           (m\<lparr>updating := False, mu := False\<rparr>, WeatherMsg Weather_zero (Some e)) \<and>
         w (fst (LoadWeather_exit city fetched m)) = w m \<and>
         table (fst (LoadWeather_exit city fetched m)) = table m \<and>
         currentCity (fst (LoadWeather_exit city fetched m)) = currentCity m \<and>
         \<not> updating (fst (LoadWeather_exit city fetched m)) \<and>
         Update L (WeatherMsg Weather_zero (Some e)) m' = Inr (m', None)"
  using assms by (auto simp: LoadWeather_exit_def split: prod.splits)

theorem failed_fetch_keeps_view_witness:
  "snd (Decode Weather_zero NotJSON) = Some SyntaxError \<and>
   LoadWeather_exit ''uyo'' (Inr NotJSON) (Model_zero\<lparr>updating := True, mu := True\<rparr>) =
     (Model_zero\<lparr>updating := False, mu := False\<rparr>, WeatherMsg Weather_zero (Some SyntaxError)) \<and>
   Update plain (WeatherMsg Weather_zero (Some SyntaxError)) Model_zero = Inr (Model_zero, None)"
proof -
  have h: "(Inr NotJSON :: error + body) = Inl SyntaxError \<or>
           ((Inr NotJSON :: error + body) = Inr NotJSON \<and>
            snd (Decode Weather_zero NotJSON) = Some SyntaxError)"
    by (simp add: Decode_NotJSON)
  show ?thesis
    using h failed_fetch_keeps_view [OF h, of "''uyo''" "Model_zero\<lparr>updating := True, mu := True\<rparr>" plain Model_zero]
    by simp
qed

subsection \<open>\<open>View\<close>\<close>

text \<open>
  C7, as the code has it. \<open>View\<close> is a function of the model. In every state it
  returns exactly one of three bodies followed by the help line
  "Press ctrl+c to quit, ctrl+r to refresh, ctrl+i to change city": the prompt when
  \<open>gettingInput\<close> is set; otherwise the loading text, which contains what the spinner
  draws, when \<open>updating\<close> is set; otherwise the table under a line that contains
  \<open>currentCity\<close>. The prompt contains what the text input draws. For an empty buffer
  and a placeholder that is the placeholder. Otherwise, when the styles and the
  cursor add nothing, it is the prompt of the text input, the runes of the buffer
  from \<open>offset\<close> to \<open>offsetRight\<close>, and spaces; once \<open>handleOverflow\<close> has run on a
  buffer no wider than \<open>Width\<close> (or with no width set) these runes are the whole
  buffer.
\<close>

theorem View_renders_one_body:
  "(gettingInput m \<longrightarrow>
      View L m =
        ''Enter a city to see weather infor: \<newline>\<newline>'' @ textinput_View L (input m) @ ''\<newline>\<newline>\<newline>'' @
        ''\<newline>\<newline>\<newline>Press ctrl+c to quit, ctrl+r to refresh, ctrl+i to change city'') \<and>
   (\<not> gettingInput m \<and> updating m \<longrightarrow>
      View L m =
        ''\<newline>\<newline>   '' @ spinner_View L (spinner m) @ '' Loading weather data...'' @
        ''\<newline>\<newline>\<newline>Press ctrl+c to quit, ctrl+r to refresh, ctrl+i to change city'') \<and>
   (\<not> gettingInput m \<and> \<not> updating m \<longrightarrow>
      View L m =
        ''\<newline>Showing weather data for '' @ currentCity m @ '' \<newline>'' @
        Render L (table_View L (table m)) @
        ''\<newline>\<newline>\<newline>Press ctrl+c to quit, ctrl+r to refresh, ctrl+i to change city'') \<and>
   (Value (input m) = [] \<and> Placeholder (input m) \<noteq> [] \<longrightarrow>
      textinput_View L (input m) = placeholderView L (input m)) \<and>
   (unstyled L \<and> (Value (input m) \<noteq> [] \<or> Placeholder (input m) = []) \<longrightarrow>
      textinput_View L (input m) =
        (let shown = take (offsetRight (input m) - offset (input m))
                       (drop (offset (input m)) (Value (input m)))
         in Prompt (input m) @ shown @
            replicate (if 0 < Width (input m) \<and> length shown \<le> Width (input m)
                       then Width (input m) - length shown + 1
                       else if pos (input m) - offset (input m) < length shown then 0 else 1)
              CHR '' '')) \<and>
   (unstyled L \<and> Value (input m) \<noteq> [] \<and>
    (Width (input m) = 0 \<or> length (Value (input m)) \<le> Width (input m)) \<longrightarrow>
      textinput_View L (handleOverflow (input m)) =
        Prompt (input m) @ Value (input m) @
        replicate (if 0 < Width (input m) then Width (input m) - length (Value (input m)) + 1
                   else if pos (input m) < length (Value (input m)) then 0 else 1)
          CHR '' '')"
proof -
  let ?i = "input m"
  have bodies: "View L m =
     (if gettingInput m then Prompt_body L m
      else if updating m then Loading_body L m else Table_body L m) @ help_line"
    by (rule View_cases)
  have one: "gettingInput m \<longrightarrow>
      View L m =
        ''Enter a city to see weather infor: \<newline>\<newline>'' @ textinput_View L ?i @ ''\<newline>\<newline>\<newline>'' @
        ''\<newline>\<newline>\<newline>Press ctrl+c to quit, ctrl+r to refresh, ctrl+i to change city''"
    by (simp add: bodies Prompt_body_def help_line_def)
  have two: "\<not> gettingInput m \<and> updating m \<longrightarrow>
      View L m =
        ''\<newline>\<newline>   '' @ spinner_View L (spinner m) @ '' Loading weather data...'' @
        ''\<newline>\<newline>\<newline>Press ctrl+c to quit, ctrl+r to refresh, ctrl+i to change city''"
    by (simp add: bodies Loading_body_def help_line_def)
  have three: "\<not> gettingInput m \<and> \<not> updating m \<longrightarrow>
      View L m =
        ''\<newline>Showing weather data for '' @ currentCity m @ '' \<newline>'' @
        Render L (table_View L (table m)) @
        ''\<newline>\<newline>\<newline>Press ctrl+c to quit, ctrl+r to refresh, ctrl+i to change city''"
    by (simp add: bodies Table_body_def help_line_def)
  have four: "Value ?i = [] \<and> Placeholder ?i \<noteq> [] \<longrightarrow>
      textinput_View L ?i = placeholderView L ?i"
    by (simp add: textinput_View_def)
  have five: "unstyled L \<and> (Value ?i \<noteq> [] \<or> Placeholder ?i = []) \<longrightarrow>
      textinput_View L ?i =
        (let shown = take (offsetRight ?i - offset ?i) (drop (offset ?i) (Value ?i))
         in Prompt ?i @ shown @
            replicate (if 0 < Width ?i \<and> length shown \<le> Width ?i
                       then Width ?i - length shown + 1
                       else if pos ?i - offset ?i < length shown then 0 else 1)
              CHR '' '')"
    using textinput_View_unstyled [of L ?i] by blast
  have six: "unstyled L \<and> Value ?i \<noteq> [] \<and> (Width ?i = 0 \<or> length (Value ?i) \<le> Width ?i) \<longrightarrow>
      textinput_View L (handleOverflow ?i) =
        Prompt ?i @ Value ?i @
        replicate (if 0 < Width ?i then Width ?i - length (Value ?i) + 1
                   else if pos ?i < length (Value ?i) then 0 else 1)
          CHR '' ''"
  proof (intro impI, elim conjE)
    assume u: "unstyled L" and v: "Value ?i \<noteq> []"
      and f: "Width ?i = 0 \<or> length (Value ?i) \<le> Width ?i"
    let ?j = "?i\<lparr>offset := 0, offsetRight := length (Value ?i)\<rparr>"
    have "handleOverflow ?i = ?j" using f by (rule handleOverflow_fits)
    moreover have "textinput_View L ?j =
        Prompt ?i @ Value ?i @
        replicate (if 0 < Width ?i then Width ?i - length (Value ?i) + 1
                   else if pos ?i < length (Value ?i) then 0 else 1)
          CHR '' ''"
      using textinput_View_unstyled [of L ?j] u v f by (auto simp add: Let_def)
    ultimately show "textinput_View L (handleOverflow ?i) =
        Prompt ?i @ Value ?i @
        replicate (if 0 < Width ?i then Width ?i - length (Value ?i) + 1
                   else if pos ?i < length (Value ?i) then 0 else 1)
          CHR '' ''"
      by simp
  qed
  from one two three four five six show ?thesis by (intro conjI)
qed

theorem View_renders_one_body_witness:
  "gettingInput (model prompt_open) \<and>
   Value (input (model prompt_open)) = [] \<and>
   Placeholder (input (model prompt_open)) = ''Enter city name'' \<and>
   View plain (model prompt_open) =
     ''Enter a city to see weather infor: \<newline>\<newline>> Enter city name\<newline>\<newline>\<newline>\<newline>\<newline>\<newline>Press ctrl+c to quit, ctrl+r to refresh, ctrl+i to change city'' \<and>
   unstyled plain \<and>
   gettingInput (model prompt_while_fetching) \<and>
   Value (input (model prompt_while_fetching)) = ''uyo'' \<and>
   Width (input (model prompt_while_fetching)) = 50 \<and>
   View plain (model prompt_while_fetching) =
     ''Enter a city to see weather infor: \<newline>\<newline>> uyo'' @ replicate 48 CHR '' '' @
     ''\<newline>\<newline>\<newline>\<newline>\<newline>\<newline>Press ctrl+c to quit, ctrl+r to refresh, ctrl+i to change city'' \<and>
   textinput_View plain (handleOverflow (input (model prompt_while_fetching))) =
     ''> uyo'' @ replicate 48 CHR '' '' \<and>
   \<not> gettingInput (model fetching_state) \<and>
   updating (model fetching_state) \<and>
   View plain (model fetching_state) =
     ''\<newline>\<newline>   * Loading weather data...\<newline>\<newline>\<newline>Press ctrl+c to quit, ctrl+r to refresh, ctrl+i to change city'' \<and>
   \<not> gettingInput ((model (main False))\<lparr>currentCity := ''uyo''\<rparr>) \<and>
   \<not> updating ((model (main False))\<lparr>currentCity := ''uyo''\<rparr>) \<and>
   View plain ((model (main False))\<lparr>currentCity := ''uyo''\<rparr>) =
     ''\<newline>Showing weather data for uyo \<newline>\<newline>\<newline>\<newline>Press ctrl+c to quit, ctrl+r to refresh, ctrl+i to change city''"
proof -
  let ?m1 = "model prompt_open"
  let ?m2 = "model prompt_while_fetching"
  let ?m3 = "model fetching_state"
  let ?m4 = "(model (main False))\<lparr>currentCity := ''uyo''\<rparr>"
  have h1: "gettingInput ?m1" "Value (input ?m1) = []" "Placeholder (input ?m1) = ''Enter city name''"
    by (simp_all add: prompt_open_def main_False Focus_def)
  have p1: "placeholderView plain (input ?m1) = ''> Enter city name''"
    by (simp add: plain_def prompt_open_def main_False Focus_def)
  have u: "unstyled plain"
    by (simp add: unstyled_def plain_def)
  have h2: "gettingInput ?m2" "Value (input ?m2) = ''uyo''" "Width (input ?m2) = 50"
      "Prompt (input ?m2) = ''> ''" "offset (input ?m2) = 0" "offsetRight (input ?m2) = 3"
      "pos (input ?m2) = 3"
    by (simp_all add: prompt_while_fetching_def fetching_state_def prompt_open_def main_False
          Focus_def)
  have h3: "\<not> gettingInput ?m3" "updating ?m3" "spinner_View plain (spinner ?m3) = ''*''"
    by (simp_all add: fetching_state_def prompt_open_def plain_def)
  have h4: "\<not> gettingInput ?m4" "\<not> updating ?m4" "currentCity ?m4 = ''uyo''"
      "Render plain (table_View plain (table ?m4)) = []"
    by (simp_all add: main_False Model_zero_def plain_def table_New_def)
  have v1: "View plain ?m1 =
     ''Enter a city to see weather infor: \<newline>\<newline>> Enter city name\<newline>\<newline>\<newline>\<newline>\<newline>\<newline>Press ctrl+c to quit, ctrl+r to refresh, ctrl+i to change city''"
    using View_renders_one_body [of ?m1 plain] h1 by (simp add: p1)
  have v2: "View plain ?m2 =
     ''Enter a city to see weather infor: \<newline>\<newline>> uyo'' @ replicate 48 CHR '' '' @
     ''\<newline>\<newline>\<newline>\<newline>\<newline>\<newline>Press ctrl+c to quit, ctrl+r to refresh, ctrl+i to change city''"
    using View_renders_one_body [of ?m2 plain] u h2 by (simp add: Let_def)
  have v2': "textinput_View plain (handleOverflow (input ?m2)) = ''> uyo'' @ replicate 48 CHR '' ''"
    using View_renders_one_body [of ?m2 plain] u h2 by simp
  have v3: "View plain ?m3 =
     ''\<newline>\<newline>   * Loading weather data...\<newline>\<newline>\<newline>Press ctrl+c to quit, ctrl+r to refresh, ctrl+i to change city''"
    using View_renders_one_body [of ?m3 plain] h3 by simp
  have v4: "View plain ?m4 =
     ''\<newline>Showing weather data for uyo \<newline>\<newline>\<newline>\<newline>Press ctrl+c to quit, ctrl+r to refresh, ctrl+i to change city''"
    using View_renders_one_body [of ?m4 plain] h4 by simp
  from h1 u h2(1,2,3) v1 v2 v2' h3(1,2) v3 h4(1,2) v4 show ?thesis
    by (intro conjI)
qed

text \<open>
  C7, as stated, fails: the prompt is open after the start and sixty letters z
  arrive in it (the text input takes a hundred runes and is fifty cells wide). The
  buffer holds the sixty letters, and \<open>View\<close> shows fifty of them.
\<close>

theorem long_city_is_cut:
  "reachable plain long_city \<and>
   gettingInput (model long_city) \<and>
   Value (input (model long_city)) = replicate 60 CHR ''z'' \<and>
   View plain (model long_city) =
     ''Enter a city to see weather infor: \<newline>\<newline>> '' @ replicate 50 CHR ''z'' @
     '' \<newline>\<newline>\<newline>\<newline>\<newline>\<newline>Press ctrl+c to quit, ctrl+r to refresh, ctrl+i to change city'' \<and>
   count_list (View plain (model long_city)) CHR ''z'' = 50"
proof -
  have v: "View plain (model long_city) =
     ''Enter a city to see weather infor: \<newline>\<newline>> '' @ replicate 50 CHR ''z'' @
     '' \<newline>\<newline>\<newline>\<newline>\<newline>\<newline>Press ctrl+c to quit, ctrl+r to refresh, ctrl+i to change city''"
    by (simp add: View_def textinput_View_def Let_def plain_def long_city_def prompt_open_def
          main_False Focus_def help_line_def)
  have c: "count_list (View plain (model long_city)) CHR ''z'' = 50"
    unfolding v by (simp add: count_list_replicate_same)
  have g: "gettingInput (model long_city)"
      "Value (input (model long_city)) = replicate 60 CHR ''z''"
    by (simp_all add: long_city_def prompt_open_def)
  from reachable_long_city g v c show ?thesis by (intro conjI)
qed

subsection \<open>\<open>InitTable\<close>\<close>

text \<open>
  C4. The body \<open>{"timelines":{"daily":[{"time":"2024"}]}}\<close> decodes without an
  error into a forecast of one day whose date has four bytes. On that forecast
  \<open>InitTable\<close> panics in \<open>day.Time[:10]\<close>, and so does \<open>Update\<close> on the \<open>WeatherMsg\<close> that
  carries it.
\<close>

theorem InitTable_short_date_panics:
  "Decode Weather_zero
     (JSON (JObject [(''timelines'', JObject [(''daily'', JArray [JObject [(''time'', JString ''2024'')]])])]))
     = (short_date, None) \<and>
   InitTable (Model_zero\<lparr>w := short_date\<rparr>) = Inl (SliceBoundsOutOfRange 10 4) \<and>
   Update plain (WeatherMsg short_date None) Model_zero = Inl (SliceBoundsOutOfRange 10 4)"
  by code_simp



subsection \<open>\<open>Decode\<close>\<close>

text \<open>
  C9, as the code has it. \<open>Decode\<close> returns no error on a JSON object none of whose
  keys selects the field \<open>timelines\<close>, whatever else the object holds, as \<open>{}\<close> or an
  error page of the provider: the forecast stays empty, with no daily record, and
  \<open>InitTable\<close> on it gives a table without rows.
\<close>

theorem Decode_unrelated_object:
  assumes "\<forall>member\<in>set ms. \<not> field_matches ''timelines'' (fst member)"
  shows "Decode Weather_zero (JSON (JObject ms)) = (Weather_zero, None) \<and>
         Daily (Timelines Weather_zero) = [] \<and>
         (\<exists>m'. InitTable (m\<lparr>w := fst (Decode Weather_zero (JSON (JObject ms)))\<rparr>) = Inr m' \<and>
               rows (table m') = [])"
proof -
  have "Decode Weather_zero (JSON (JObject ms)) = (Weather_zero, None)"
    using fold_Weather_member_unrelated [OF assms]
    by (simp add: Decode_def Unmarshal_def Weather_zero_def)
  then show ?thesis by (simp add: Weather_zero_def InitTable_def Let_def table_New_def)
qed

theorem Decode_unrelated_object_witness:
  "\<not> field_matches ''timelines'' ''code'' \<and>
   \<not> field_matches ''timelines'' ''type'' \<and>
   \<not> field_matches ''timelines'' ''message'' \<and>
   Decode Weather_zero (JSON error_page) = (Weather_zero, None) \<and>
   (\<exists>m'. InitTable (Model_zero\<lparr>w := fst (Decode Weather_zero (JSON error_page))\<rparr>) = Inr m' \<and>
         rows (table m') = [])"
proof -
  have h: "\<forall>member\<in>set [(''code'', JNumber (Inr (False, 429001, 0))),
                    (''type'', JString ''Too Many Calls''),
                    (''message'', JString ''The request limit for this resource has been reached'')].
      \<not> field_matches ''timelines'' (fst member)"
    by (simp add: field_matches_def upper_def)
  have h': "\<not> field_matches ''timelines'' ''code'' \<and>
            \<not> field_matches ''timelines'' ''type'' \<and>
            \<not> field_matches ''timelines'' ''message''"
    using h by simp
  have c: "Decode Weather_zero (JSON error_page) = (Weather_zero, None) \<and>
           (\<exists>m'. InitTable (Model_zero\<lparr>w := fst (Decode Weather_zero (JSON error_page))\<rparr>) = Inr m' \<and>
                 rows (table m') = [])"
    using Decode_unrelated_object [OF h, of Model_zero] unfolding error_page_def by blast
  show ?thesis using h' c by blast
qed

text \<open>
  C9, as stated, fails: the JSON texts \<open>[]\<close> and \<open>{"timelines":5}\<close> are valid and do
  not match the schema, and \<open>Decode\<close> returns an \<open>UnmarshalTypeError\<close> on each.
\<close>

theorem Decode_rejects_valid_JSON:
  "Decode Weather_zero (JSON (JArray [])) = (Weather_zero, Some (UnmarshalTypeError ''array'')) \<and>
   Decode Weather_zero (JSON (JObject [(''timelines'', JNumber (Inr (False, 5, 0)))])) =
     (Weather_zero, Some (UnmarshalTypeError ''number''))"
  by (simp add: Decode_def Unmarshal_def Weather_zero_def field_matches_def)

subsection \<open>The running program\<close>

text \<open>
  C1, at a state of the running program. After the start the user types "uyo" in the
  prompt and presses Enter; the closure sets \<open>updating\<close> and is inside
  \<open>FetchWeather\<close>; the user presses ctrl+r. \<open>Update\<close> hands a second closure to the
  runtime. That closure cannot get past \<open>m.mu.Lock()\<close>, since the first one holds the
  mutex until it returns: it returns nothing, and no rejection. When the first
  closure has returned (here with a body that does not decode), the second one finds
  the flag clear and goes on to fetch.
\<close>

theorem second_request_waits:
  "reachable plain second_request \<and>
   updating (model second_request) \<and>
   fetching second_request = [''uyo''] \<and>
   pending second_request = [LoadWeather ''''] \<and>
   LoadWeather_run '''' (Inr NotJSON) (model second_request) = None \<and>
   LoadWeather_enter (fst (LoadWeather_exit ''uyo'' (Inr NotJSON) (model second_request))) =
     Inr ((model second_request)\<lparr>mu := True, updating := True\<rparr>)"
  using reachable_second_request
  by (simp add: second_request_def fetching_state_def prompt_open_def main_False
        LoadWeather_run_def LoadWeather_exit_def LoadWeather_enter_def Decode_NotJSON
        Model_zero_def)

text \<open>
  C5, as the code has it. In every state \<open>View\<close> shows exactly one of the three
  bodies: the prompt exactly when \<open>gettingInput\<close> is set, the loading text exactly
  when \<open>updating\<close> is set and \<open>gettingInput\<close> is not, the table exactly when neither
  is set.
\<close>

theorem View_mode:
  "(View L m = Loading_body L m @ help_line) = (updating m \<and> \<not> gettingInput m) \<and>
   (View L m = Prompt_body L m @ help_line) = gettingInput m \<and>
   (View L m = Table_body L m @ help_line) = (\<not> updating m \<and> \<not> gettingInput m)"
  by (rule View_bodies)

text \<open>
  C5, as stated, fails: the state in which a fetch is in flight and the user has
  pressed ctrl+i is reachable; \<open>updating\<close> is set there and \<open>View\<close> shows the prompt,
  not the loading text.
\<close>

theorem prompt_hides_loading:
  "reachable plain prompt_while_fetching \<and>
   updating (model prompt_while_fetching) \<and>
   View plain (model prompt_while_fetching) =
     Prompt_body plain (model prompt_while_fetching) @ help_line \<and>
   View plain (model prompt_while_fetching) \<noteq>
     Loading_body plain (model prompt_while_fetching) @ help_line"
  using reachable_prompt_while_fetching
  by (simp add: View_bodies)
     (simp add: prompt_while_fetching_def fetching_state_def prompt_open_def main_False)

text \<open>
  C8, as the code has it. A request for a fetch (ctrl+r, or Enter in the prompt) only
  returns the closure of \<open>LoadWeather\<close> and leaves \<open>updating\<close> as it is. The flag is
  set by the closure itself, when it has the mutex and finds the flag clear, before
  it calls \<open>FetchWeather\<close>; in every reachable state in which a call of
  \<open>FetchWeather\<close> is outstanding the flag is set.
\<close>

theorem flag_set_by_closure:
  "Update L (KeyMsg KeyCtrlR) m = Inr (m, Some (LoadWeather (currentCity m))) \<and>
   (gettingInput m \<longrightarrow>
      Update L (KeyMsg KeyEnter) m =
        Inr (m\<lparr>gettingInput := False\<rparr>, Some (LoadWeather (Value (input m))))) \<and>
   (\<not> updating m \<longrightarrow> LoadWeather_enter m = Inr (m\<lparr>mu := True, updating := True\<rparr>)) \<and>
   (reachable L s \<and> fetching s \<noteq> [] \<longrightarrow> updating (model s))"
  using reachable_fetching_updating [of L s] by (auto simp: LoadWeather_enter_def)

theorem flag_set_by_closure_witness:
  "gettingInput (Model_zero\<lparr>gettingInput := True\<rparr>) \<and>
   \<not> updating (Model_zero\<lparr>gettingInput := True\<rparr>) \<and>
   reachable plain fetching_state \<and>
   fetching fetching_state \<noteq> [] \<and>
   Update plain (KeyMsg KeyEnter) (Model_zero\<lparr>gettingInput := True\<rparr>) =
     Inr (Model_zero, Some (LoadWeather '''')) \<and>
   LoadWeather_enter (Model_zero\<lparr>gettingInput := True\<rparr>) =
     Inr (Model_zero\<lparr>gettingInput := True, mu := True, updating := True\<rparr>) \<and>
   updating (model fetching_state)"
proof -
  have h: "gettingInput (Model_zero\<lparr>gettingInput := True\<rparr>) \<and>
           \<not> updating (Model_zero\<lparr>gettingInput := True\<rparr>) \<and>
           reachable plain fetching_state \<and> fetching fetching_state \<noteq> []"
    using reachable_fetching_state by (simp add: Model_zero_def fetching_state_def)
  show ?thesis
    using h flag_set_by_closure [of plain "Model_zero\<lparr>gettingInput := True\<rparr>" fetching_state]
    by (simp add: Model_zero_def)
qed

text \<open>
  C8, as stated, fails: when \<open>Update\<close> has handled ctrl+r in the start state, the
  flag is still clear.
\<close>

theorem refresh_leaves_flag_clear:
  "\<not> updating (model (main False)) \<and>
   Update plain (KeyMsg KeyCtrlR) (model (main False)) =
     Inr (model (main False), Some (LoadWeather ''''))"
  by (simp add: main_False Model_zero_def)

text \<open>
  C6. The statement \<open>go m.LoadWeather("uyo")\<close> of \<open>main\<close> builds the closure and drops
  it, and the command of \<open>Init\<close> is the one that sends ctrl+i. So in every run in
  which nothing arrives from outside, whatever the widgets do, no fetch is in flight,
  no closure of \<open>LoadWeather\<close> is among the commands handed to the runtime, the flag
  \<open>updating\<close> is clear, there is no current city and no row, and \<open>View\<close> does not show
  the loading text.
\<close>

theorem startup_issues_no_fetch:
  assumes "quiet L s"
  shows "fetching s = [] \<and>
         (\<forall>city. LoadWeather city \<notin> set (pending s)) \<and>
         \<not> updating (model s) \<and>
         currentCity (model s) = '''' \<and>
         rows (table (model s)) = [] \<and>
         View L (model s) \<noteq>
           ''\<newline>\<newline>   '' @ spinner_View L (spinner (model s)) @ '' Loading weather data...'' @
           ''\<newline>\<newline>\<newline>Press ctrl+c to quit, ctrl+r to refresh, ctrl+i to change city''"
proof -
  from assms have a: "at_startup s" by (rule quiet_at_startup)
  then have u: "\<not> updating (model s)" by (simp add: at_startup_def)
  have p: "\<forall>city. LoadWeather city \<notin> set (pending s)"
    using a by (auto simp add: at_startup_def)
  have "View L (model s) \<noteq> Loading_body L (model s) @ help_line"
    using View_bodies [of L "model s"] u by blast
  then have v: "View L (model s) \<noteq>
           ''\<newline>\<newline>   '' @ spinner_View L (spinner (model s)) @ '' Loading weather data...'' @
           ''\<newline>\<newline>\<newline>Press ctrl+c to quit, ctrl+r to refresh, ctrl+i to change city''"
    by (simp add: Loading_body_def help_line_def)
  from a have "fetching s = []" "currentCity (model s) = ''''" "rows (table (model s)) = []"
    by (simp_all add: at_startup_def)
  with p u v show ?thesis by (intro conjI)
qed

theorem startup_issues_no_fetch_witness:
  "quiet plain prompt_open \<and>
   fetching prompt_open = [] \<and>
   pending prompt_open = [] \<and>
   inbox prompt_open = [] \<and>
   \<not> updating (model prompt_open) \<and>
   gettingInput (model prompt_open) \<and>
   currentCity (model prompt_open) = '''' \<and>
   rows (table (model prompt_open)) = [] \<and>
   View plain (model prompt_open) \<noteq>
     ''\<newline>\<newline>   * Loading weather data...\<newline>\<newline>\<newline>Press ctrl+c to quit, ctrl+r to refresh, ctrl+i to change city'' \<and>
   View plain (model prompt_open) =
     ''Enter a city to see weather infor: \<newline>\<newline>> Enter city name\<newline>\<newline>\<newline>\<newline>\<newline>\<newline>Press ctrl+c to quit, ctrl+r to refresh, ctrl+i to change city''"
proof -
  have e: "pending prompt_open = []" "inbox prompt_open = []" "gettingInput (model prompt_open)"
      "spinner_View plain (spinner (model prompt_open)) = ''*''"
    by (simp_all add: prompt_open_def main_False plain_def)
  have v: "View plain (model prompt_open) =
     ''Enter a city to see weather infor: \<newline>\<newline>> Enter city name\<newline>\<newline>\<newline>\<newline>\<newline>\<newline>Press ctrl+c to quit, ctrl+r to refresh, ctrl+i to change city''"
    by (simp add: View_def textinput_View_def plain_def prompt_open_def main_False Focus_def
          help_line_def)
  from startup_issues_no_fetch [OF quiet_prompt_open] e(4)
  have t: "fetching prompt_open = []" "\<not> updating (model prompt_open)"
      "currentCity (model prompt_open) = ''''" "rows (table (model prompt_open)) = []"
      "View plain (model prompt_open) \<noteq>
         ''\<newline>\<newline>   * Loading weather data...\<newline>\<newline>\<newline>Press ctrl+c to quit, ctrl+r to refresh, ctrl+i to change city''"
    by simp_all
  from quiet_prompt_open t e(1,2,3) v show ?thesis by (intro conjI)
qed

end
